theory Spec2Isabelle
  imports Complex_Main "HOL-Library.Sublist"
begin

section \<open>JSON values and Python dictionaries\<close>

text \<open>
  The handlers of \<^verbatim>\<open>app.py\<close> work on parsed JSON. A JSON object is a Python
  dict: an association list with distinct keys in insertion order, read with
  \<^const>\<open>map_of\<close>. Python ints are unbounded. A float is a finite value, an
  infinity or NaN; the finite values are reals, and an arithmetic result is
  rounded to a representable value by the platform's rounding function, which
  the environment supplies.
\<close>

datatype pyfloat = Finite real | PosInf | NegInf | NaN

datatype json =
    JNull
  | JBool bool
  | JInt int
  | JFloat pyfloat
  | JStr string
  | JList "json list"
  | JObj "(string \<times> json) list"

type_synonym dict = "(string \<times> json) list"

datatype py_exception =
    AttributeError string
  | IndexError string
  | KeyError string
  | TypeError string
  | ValueError string
  | OverflowError string
  | RuntimeError string

text \<open>
  The exception classes above derive from \<^verbatim>\<open>Exception\<close>, which is what the
  \<^verbatim>\<open>except Exception\<close> clauses of the source catch. \<^verbatim>\<open>KeyboardInterrupt\<close> and
  \<^verbatim>\<open>SystemExit\<close> come from a signal or an interpreter exit, not from a call
  made by the handlers, and are not modelled. \<^verbatim>\<open>str(e)\<close> of a caught
  exception is its message.
\<close>

fun str_exc :: "py_exception \<Rightarrow> string" where
  "str_exc (AttributeError m) = m"
| "str_exc (IndexError m) = m"
| "str_exc (KeyError m) = m"
| "str_exc (TypeError m) = m"
| "str_exc (ValueError m) = m"
| "str_exc (OverflowError m) = m"
| "str_exc (RuntimeError m) = m"

text \<open>\<^verbatim>\<open>key in d\<close>, \<^verbatim>\<open>d[key]\<close>, \<^verbatim>\<open>d.get(key, default)\<close> and
  \<^verbatim>\<open>d[key] = v\<close> on a dict.\<close>

definition py_in :: "string \<Rightarrow> dict \<Rightarrow> bool" where
  "py_in k d = (map_of d k \<noteq> None)"

definition py_repr_str :: "string \<Rightarrow> string" where
  "py_repr_str s = CHR 0x27 # s @ [CHR 0x27]"

definition py_getitem :: "dict \<Rightarrow> string \<Rightarrow> py_exception + json" where
  "py_getitem d k =
     (case map_of d k of None \<Rightarrow> Inl (KeyError (py_repr_str k)) | Some v \<Rightarrow> Inr v)"

definition py_get :: "dict \<Rightarrow> string \<Rightarrow> json \<Rightarrow> json" where
  "py_get d k dflt = (case map_of d k of None \<Rightarrow> dflt | Some v \<Rightarrow> v)"

fun py_setitem :: "dict \<Rightarrow> string \<Rightarrow> json \<Rightarrow> dict" where
  "py_setitem [] k v = [(k, v)]"
| "py_setitem (p # ps) k v = (if fst p = k then (k, v) # ps else p # py_setitem ps k v)"

text \<open>A list display \<^verbatim>\<open>[d[k1], d[k2], ...]\<close>: the subscripts are evaluated left
  to right and the first absent key raises.\<close>

fun py_getitems :: "dict \<Rightarrow> string list \<Rightarrow> py_exception + json list" where
  "py_getitems d [] = Inr []"
| "py_getitems d (k # ks) =
     (case py_getitem d k of
        Inl e \<Rightarrow> Inl e
      | Inr v \<Rightarrow> (case py_getitems d ks of Inl e \<Rightarrow> Inl e | Inr vs \<Rightarrow> Inr (v # vs)))"

text \<open>\<^verbatim>\<open>repr\<close> of a list of strings, as an f-string prints it.\<close>

fun py_join :: "string list \<Rightarrow> string" where
  "py_join [] = []"
| "py_join [s] = s"
| "py_join (s # t # ss) = s @ '', '' @ py_join (t # ss)"

definition py_repr_list :: "string list \<Rightarrow> string" where
  "py_repr_list xs = ''['' @ py_join (map py_repr_str xs) @ '']''"

section \<open>Globals\<close>

definition CROP_LABELS :: "string list" where
  "CROP_LABELS =
     [''apple'', ''banana'', ''blackgram'', ''chickpea'', ''coconut'', ''coffee'',
      ''cotton'', ''grapes'', ''jute'', ''kidneybeans'', ''lentil'', ''maize'',
      ''mango'', ''mothbeans'', ''mungbean'', ''muskmelon'', ''orange'', ''papaya'',
      ''pigeonpeas'', ''pomegranate'', ''rice'', ''watermelon'']"

definition SOIL_CLASSES :: "string list" where
  "SOIL_CLASSES = [''Low'', ''Mild'', ''High'']"

text \<open>
  The TensorFlow Lite interpreter, the joblib scaler and numpy are external. A
  tensor of shape \<open>(1, n)\<close> is a list of rows. Each external call either raises
  (\<open>Inl\<close>) or returns:
  \<^item> \<open>get_details\<close>: \<^verbatim>\<open>get_input_details()\<close> and \<^verbatim>\<open>get_output_details()\<close>;
  \<^item> \<open>run\<close>: \<^verbatim>\<open>set_tensor\<close>, \<^verbatim>\<open>invoke\<close> and \<^verbatim>\<open>get_tensor\<close>, from the
    scaled input to the output tensor;
  \<^item> \<open>transform\<close>: the scaler's \<^verbatim>\<open>transform\<close>;
  \<^item> \<open>np_array\<close>: \<^verbatim>\<open>np.array(input_data, dtype=np.float32).reshape(1, -1)\<close>;
  \<^item> \<open>float_round\<close>: the rounding of a real in range to the nearest binary64
    value, which every float operation of the interpreter applies to its exact
    result.
  A global that \<^verbatim>\<open>load_models\<close> did not set is \<open>None\<close>.
\<close>

record interpreter =
  get_details :: "py_exception + unit"
  run :: "pyfloat list list \<Rightarrow> py_exception + pyfloat list list"

record scaler =
  transform :: "pyfloat list list \<Rightarrow> py_exception + pyfloat list list"

record env =
  crop_model :: "interpreter option"
  soil_model :: "interpreter option"
  crop_scaler :: "scaler option"
  soil_scaler :: "scaler option"
  np_array :: "json list \<Rightarrow> py_exception + pyfloat list list"
  float_round :: "real \<Rightarrow> real"

definition none_has_no_attribute :: "string \<Rightarrow> py_exception" where
  "none_has_no_attribute a =
     AttributeError
       (py_repr_str ''NoneType'' @ '' object has no attribute '' @ py_repr_str a)"

section \<open>Float comparison and the numpy reductions\<close>

text \<open>The comparisons \<^verbatim>\<open><=\<close> and \<^verbatim>\<open>>\<close> of floats: every comparison with NaN
  is false.\<close>

fun float_le :: "pyfloat \<Rightarrow> pyfloat \<Rightarrow> bool" where
  "float_le (Finite x) (Finite y) = (x \<le> y)"
| "float_le (Finite x) PosInf = True"
| "float_le (Finite x) NegInf = False"
| "float_le PosInf (Finite y) = False"
| "float_le PosInf PosInf = True"
| "float_le PosInf NegInf = False"
| "float_le NegInf (Finite y) = True"
| "float_le NegInf PosInf = True"
| "float_le NegInf NegInf = True"
| "float_le NaN b = False"
| "float_le a NaN = False"

fun float_gt_int :: "pyfloat \<Rightarrow> int \<Rightarrow> bool" where
  "float_gt_int (Finite x) n = (x > real_of_int n)"
| "float_gt_int PosInf n = True"
| "float_gt_int NegInf n = False"
| "float_gt_int NaN n = False"

text \<open>
  \<^verbatim>\<open>np.max\<close> of a row reduces it from the left with \<^verbatim>\<open>np.maximum\<close>, which
  returns NaN as soon as one argument is NaN. \<^verbatim>\<open>np.argmax\<close> scans the row
  once, keeping the largest entry seen and its index; an entry replaces the
  kept one when it is not \<^verbatim>\<open><=\<close> it, and the scan stops at the first NaN, which
  counts as maximal. Both raise on an empty row.
\<close>

definition float_maximum :: "pyfloat \<Rightarrow> pyfloat \<Rightarrow> pyfloat" where
  "float_maximum a b = (if a = NaN \<or> b = NaN then NaN else if float_le b a then a else b)"

fun argmax_loop :: "pyfloat \<Rightarrow> nat \<Rightarrow> nat \<Rightarrow> pyfloat list \<Rightarrow> nat" where
  "argmax_loop mp max_ind i [] = max_ind"
| "argmax_loop mp max_ind i (x # xs) =
     (if \<not> float_le x mp
      then (if x = NaN then i else argmax_loop x i (Suc i) xs)
      else argmax_loop mp max_ind (Suc i) xs)"

definition np_argmax :: "pyfloat list \<Rightarrow> py_exception + nat" where
  "np_argmax xs =
     (case xs of
        [] \<Rightarrow> Inl (ValueError ''attempt to get argmax of an empty sequence'')
      | x # rest \<Rightarrow> Inr (if x = NaN then 0 else argmax_loop x 0 1 rest))"

definition np_max :: "pyfloat list \<Rightarrow> py_exception + pyfloat" where
  "np_max xs =
     (case xs of
        [] \<Rightarrow> Inl (ValueError
          ''zero-size array to reduction operation maximum which has no identity'')
      | x # rest \<Rightarrow> Inr (foldl float_maximum x rest))"

text \<open>\<^verbatim>\<open>output[0]\<close> and \<^verbatim>\<open>LABELS[predicted_class]\<close>.\<close>

definition first_row :: "pyfloat list list \<Rightarrow> py_exception + pyfloat list" where
  "first_row t =
     (case t of
        [] \<Rightarrow> Inl (IndexError ''index 0 is out of bounds for axis 0 with size 0'')
      | r # _ \<Rightarrow> Inr r)"

definition label_at :: "string list \<Rightarrow> nat \<Rightarrow> py_exception + string" where
  "label_at labels i =
     (if i < length labels then Inr (labels ! i)
      else Inl (IndexError ''list index out of range''))"

section \<open>The prediction helpers\<close>

text \<open>Lines 53 to 67 of \<^verbatim>\<open>predict_crop\<close> and 83 to 97 of \<^verbatim>\<open>predict_soil\<close>, which
  differ only in the globals they read: from the input list to the output tensor.\<close>

definition model_output ::
  "interpreter option \<Rightarrow> scaler option \<Rightarrow> (json list \<Rightarrow> py_exception + pyfloat list list)
     \<Rightarrow> json list \<Rightarrow> py_exception + pyfloat list list" where
  "model_output model sc to_array input_data =
     (case model of
        None \<Rightarrow> Inl (none_has_no_attribute ''get_input_details'')
      | Some m \<Rightarrow>
         (case get_details m of
            Inl e \<Rightarrow> Inl e
          | Inr _ \<Rightarrow>
             (case to_array input_data of
                Inl e \<Rightarrow> Inl e
              | Inr input_array \<Rightarrow>
                 (case sc of
                    None \<Rightarrow> Inl (none_has_no_attribute ''transform'')
                  | Some s \<Rightarrow>
                     (case transform s input_array of
                        Inl e \<Rightarrow> Inl e
                      | Inr scaled_input \<Rightarrow> run m scaled_input)))))"

text \<open>Lines 68 to 75 and 98 to 105: the result dict under the given label key.\<close>

definition build_result ::
  "string \<Rightarrow> string list \<Rightarrow> pyfloat list list \<Rightarrow> py_exception + dict" where
  "build_result key labels output =
     (case first_row output of
        Inl e \<Rightarrow> Inl e
      | Inr row \<Rightarrow>
         (case np_argmax row of
            Inl e \<Rightarrow> Inl e
          | Inr predicted_class \<Rightarrow>
             (case np_max row of
                Inl e \<Rightarrow> Inl e
              | Inr confidence \<Rightarrow>
                 (case label_at labels predicted_class of
                    Inl e \<Rightarrow> Inl e
                  | Inr label \<Rightarrow>
                     Inr [(key, JStr label),
                          (''confidence'', JFloat confidence),
                          (''class_index'', JInt (int predicted_class))]))))"

text \<open>\<^verbatim>\<open>try: ... except Exception as e: return {'error': str(e)}\<close>.\<close>

definition catch_error :: "py_exception + dict \<Rightarrow> dict" where
  "catch_error r = (case r of Inl e \<Rightarrow> [(''error'', JStr (str_exc e))] | Inr d \<Rightarrow> d)"

definition predict_crop :: "env \<Rightarrow> json list \<Rightarrow> dict" where
  "predict_crop env input_data =
     catch_error
       (case model_output (crop_model env) (crop_scaler env) (np_array env) input_data of
          Inl e \<Rightarrow> Inl e
        | Inr output \<Rightarrow> build_result ''predicted_crop'' CROP_LABELS output)"

definition predict_soil :: "env \<Rightarrow> json list \<Rightarrow> dict" where
  "predict_soil env input_data =
     catch_error
       (case model_output (soil_model env) (soil_scaler env) (np_array env) input_data of
          Inl e \<Rightarrow> Inl e
        | Inr output \<Rightarrow> build_result ''predicted_fertility'' SOIL_CLASSES output)"

section \<open>The endpoints\<close>

text \<open>A response is the JSON body with the HTTP status; \<^verbatim>\<open>jsonify(x)\<close> alone is
  status 200. The handlers are modelled on request bodies that are JSON objects.\<close>

type_synonym response = "json \<times> nat"

definition error_response :: "py_exception \<Rightarrow> response" where
  "error_response e = (JObj [(''error'', JStr (str_exc e))], 500)"

definition crop_required_fields :: "string list" where
  "crop_required_fields =
     [''N'', ''P'', ''K'', ''temperature'', ''humidity'', ''ph'', ''rainfall'']"

definition soil_required_fields :: "string list" where
  "soil_required_fields = [''N'', ''P'', ''K'', ''pH'']"

definition predict_crop_endpoint :: "env \<Rightarrow> dict \<Rightarrow> response" where
  "predict_crop_endpoint env data =
     (let required_fields = crop_required_fields in
      if \<not> list_all (\<lambda>field. py_in field data) required_fields
      then (JObj [(''error'',
              JStr (''Missing required fields: '' @ py_repr_list required_fields))], 400)
      else
        (case py_getitems data
                [''N'', ''P'', ''K'', ''temperature'', ''humidity'', ''ph'', ''rainfall''] of
           Inl e \<Rightarrow> error_response e
         | Inr input_features \<Rightarrow>
            (let result = predict_crop env input_features in
             if py_in ''error'' result then (JObj result, 500)
             else (JObj [(''success'', JBool True),
                         (''prediction'', JObj result),
                         (''input_data'', JObj data)], 200))))"

definition predict_soil_endpoint :: "env \<Rightarrow> dict \<Rightarrow> response" where
  "predict_soil_endpoint env data =
     (let required_fields = soil_required_fields in
      if \<not> list_all (\<lambda>field. py_in field data) required_fields
      then (JObj [(''error'',
              JStr (''Missing required fields: '' @ py_repr_list required_fields))], 400)
      else
        (case py_getitems data [''N'', ''P'', ''K'', ''pH''] of
           Inl e \<Rightarrow> error_response e
         | Inr input_features \<Rightarrow>
            (let result = predict_soil env input_features in
             if py_in ''error'' result then (JObj result, 500)
             else (JObj [(''success'', JBool True),
                         (''prediction'', JObj result),
                         (''input_data'', JObj data)], 200))))"

text \<open>Lines 212 to 215: the pH key reconciliation, which updates \<^verbatim>\<open>data\<close> in place.\<close>

definition reconcile_ph :: "dict \<Rightarrow> py_exception + dict" where
  "reconcile_ph data =
     (if py_in ''pH'' data \<and> \<not> py_in ''ph'' data then
        (case py_getitem data ''pH'' of
           Inl e \<Rightarrow> Inl e | Inr v \<Rightarrow> Inr (py_setitem data ''ph'' v))
      else if py_in ''ph'' data \<and> \<not> py_in ''pH'' data then
        (case py_getitem data ''ph'' of
           Inl e \<Rightarrow> Inl e | Inr v \<Rightarrow> Inr (py_setitem data ''pH'' v))
      else Inr data)"

definition predict_combined_endpoint :: "env \<Rightarrow> dict \<Rightarrow> response" where
  "predict_combined_endpoint env data0 =
     (let crop_fields = crop_required_fields;
          soil_fields = soil_required_fields in
      case reconcile_ph data0 of
        Inl e \<Rightarrow> error_response e
      | Inr data \<Rightarrow>
         if \<not> list_all (\<lambda>field. py_in field data) crop_fields
         then (JObj [(''error'',
                 JStr (''Missing crop fields: '' @ py_repr_list crop_fields))], 400)
         else if \<not> list_all (\<lambda>field. py_in field data) soil_fields
         then (JObj [(''error'',
                 JStr (''Missing soil fields: '' @ py_repr_list soil_fields))], 400)
         else
           (case py_getitems data
                   [''N'', ''P'', ''K'', ''temperature'', ''humidity'', ''ph'', ''rainfall''] of
              Inl e \<Rightarrow> error_response e
            | Inr crop_features \<Rightarrow>
               (let crop_result = predict_crop env crop_features in
                case py_getitems data [''N'', ''P'', ''K'', ''pH''] of
                  Inl e \<Rightarrow> error_response e
                | Inr soil_features \<Rightarrow>
                   (let soil_result = predict_soil env soil_features in
                    (JObj [(''success'', JBool True),
                           (''crop_prediction'', JObj crop_result),
                           (''soil_prediction'', JObj soil_result),
                           (''input_data'', JObj data)], 200)))))"

text \<open>
  \<^verbatim>\<open>ph_value > 100\<close>: Python compares an int, a float or a bool (an int, 0 or
  1) with 100 and raises TypeError on anything else.
\<close>

fun py_type_name :: "json \<Rightarrow> string" where
  "py_type_name JNull = ''NoneType''"
| "py_type_name (JBool _) = ''bool''"
| "py_type_name (JInt _) = ''int''"
| "py_type_name (JFloat _) = ''float''"
| "py_type_name (JStr _) = ''str''"
| "py_type_name (JList _) = ''list''"
| "py_type_name (JObj _) = ''dict''"

definition gt_not_supported :: "json \<Rightarrow> py_exception" where
  "gt_not_supported v =
     TypeError (py_repr_str ''>'' @ '' not supported between instances of ''
                @ py_repr_str (py_type_name v) @ '' and '' @ py_repr_str ''int'')"

fun py_gt_100 :: "json \<Rightarrow> py_exception + bool" where
  "py_gt_100 (JInt i) = Inr (i > 100)"
| "py_gt_100 (JFloat f) = Inr (float_gt_int f 100)"
| "py_gt_100 (JBool b) = Inr ((if b then (1::int) else 0) > 100)"
| "py_gt_100 v = Inl (gt_not_supported v)"

text \<open>
  \<^verbatim>\<open>ph_value / 10.0\<close>: true division by a float. An int (or bool) operand is
  first converted to a float, correctly rounded; the conversion raises
  OverflowError when the rounded value would leave the binary64 range, that is
  from \<open>2 ^ 1024 - 2 ^ 970\<close> on in magnitude. The quotient is rounded; an
  infinity or NaN divided by 10 is itself.
\<close>

definition float_of_int :: "(real \<Rightarrow> real) \<Rightarrow> int \<Rightarrow> py_exception + pyfloat" where
  "float_of_int rnd i =
     (if 2 ^ 1024 - 2 ^ 970 \<le> \<bar>i\<bar>
      then Inl (OverflowError ''int too large to convert to float'')
      else Inr (Finite (rnd (real_of_int i))))"

fun float_div_10 :: "(real \<Rightarrow> real) \<Rightarrow> pyfloat \<Rightarrow> pyfloat" where
  "float_div_10 rnd (Finite x) = Finite (rnd (x / 10))"
| "float_div_10 rnd PosInf = PosInf"
| "float_div_10 rnd NegInf = NegInf"
| "float_div_10 rnd NaN = NaN"

fun py_div_10 :: "(real \<Rightarrow> real) \<Rightarrow> json \<Rightarrow> py_exception + json" where
  "py_div_10 rnd (JInt i) =
     (case float_of_int rnd i of
        Inl e \<Rightarrow> Inl e | Inr f \<Rightarrow> Inr (JFloat (float_div_10 rnd f)))"
| "py_div_10 rnd (JFloat f) = Inr (JFloat (float_div_10 rnd f))"
| "py_div_10 rnd (JBool b) =
     (case float_of_int rnd (if b then 1 else 0) of
        Inl e \<Rightarrow> Inl e | Inr f \<Rightarrow> Inr (JFloat (float_div_10 rnd f)))"
| "py_div_10 rnd v =
     Inl (TypeError (''unsupported operand type(s) for /: ''
            @ py_repr_str (py_type_name v) @ '' and '' @ py_repr_str ''float''))"

text \<open>Lines 266 to 268 of \<^verbatim>\<open>process_sensor_data\<close>.\<close>

definition sensor_ph_value :: "(real \<Rightarrow> real) \<Rightarrow> dict \<Rightarrow> py_exception + json" where
  "sensor_ph_value rnd data =
     (let ph_value = py_get data ''soilPH'' (JFloat (Finite 6.5)) in
      case py_gt_100 ph_value of
        Inl e \<Rightarrow> Inl e
      | Inr True \<Rightarrow> py_div_10 rnd ph_value
      | Inr False \<Rightarrow> Inr ph_value)"

text \<open>Lines 271 to 280: the dict literal \<^verbatim>\<open>prediction_data\<close>.\<close>

definition sensor_prediction_data :: "dict \<Rightarrow> json \<Rightarrow> dict" where
  "sensor_prediction_data data ph_value =
     [(''N'', py_get data ''nitrogen'' (JInt 0)),
      (''P'', py_get data ''phosphorus'' (JInt 0)),
      (''K'', py_get data ''potassium'' (JInt 0)),
      (''pH'', ph_value),
      (''ph'', ph_value),
      (''temperature'', py_get data ''temperature'' (JFloat (Finite 25.0))),
      (''humidity'', py_get data ''humidity'' (JFloat (Finite 60.0))),
      (''rainfall'', py_get data ''rainfall'' (JFloat (Finite 100.0)))]"

text \<open>Lines 282 to 301: the two predictions and the response, from the
  normalised pH value.\<close>

definition sensor_response :: "env \<Rightarrow> dict \<Rightarrow> json \<Rightarrow> response" where
  "sensor_response env data ph_value =
     (let prediction_data = sensor_prediction_data data ph_value in
      case py_getitems prediction_data
             [''N'', ''P'', ''K'', ''temperature'', ''humidity'', ''ph'', ''rainfall''] of
        Inl e \<Rightarrow> error_response e
      | Inr crop_features \<Rightarrow>
         (let crop_result = predict_crop env crop_features in
          case py_getitems prediction_data [''N'', ''P'', ''K'', ''pH''] of
            Inl e \<Rightarrow> error_response e
          | Inr soil_features \<Rightarrow>
             (let soil_result = predict_soil env soil_features in
              (JObj [(''success'', JBool True),
                     (''sensor_data'', JObj data),
                     (''recommendations'',
                        JObj [(''crop'', JObj crop_result),
                              (''soil_fertility'', JObj soil_result)]),
                     (''processed_values'', JObj prediction_data)], 200))))"

definition process_sensor_data :: "env \<Rightarrow> dict \<Rightarrow> response" where
  "process_sensor_data env data =
     (case sensor_ph_value (float_round env) data of
        Inl e \<Rightarrow> error_response e
      | Inr ph_value \<Rightarrow> sensor_response env data ph_value)"

section \<open>Example inputs\<close>

text \<open>
  Concrete collaborators for evaluating the handlers: a conversion that accepts
  JSON numbers and booleans, turns \<^verbatim>\<open>null\<close> into NaN, as numpy does, and
  takes every string for one that is not a number; a
  scaler that returns its input; interpreters that return a fixed tensor (the
  soil one of the example environment always predicts class 2); collaborators
  that raise; and the environment of a process whose \<^verbatim>\<open>load_models\<close> failed.
  The examples divide only where binary64 division is exact, so their rounding
  function is the identity.
\<close>

fun number_of :: "json \<Rightarrow> py_exception + pyfloat" where
  "number_of (JInt i) = Inr (Finite (real_of_int i))"
| "number_of (JFloat f) = Inr f"
| "number_of (JBool b) = Inr (Finite (if b then 1 else 0))"
| "number_of JNull = Inr NaN"
| "number_of (JStr s) =
     Inl (ValueError (''could not convert string to float: '' @ py_repr_str s))"
| "number_of v = Inl (TypeError ''float() argument must be a string or a real number'')"

fun numbers_of :: "json list \<Rightarrow> py_exception + pyfloat list" where
  "numbers_of [] = Inr []"
| "numbers_of (v # vs) =
     (case number_of v of
        Inl e \<Rightarrow> Inl e
      | Inr x \<Rightarrow> (case numbers_of vs of Inl e \<Rightarrow> Inl e | Inr xs \<Rightarrow> Inr (x # xs)))"

definition example_np_array :: "json list \<Rightarrow> py_exception + pyfloat list list" where
  "example_np_array vs = (case numbers_of vs of Inl e \<Rightarrow> Inl e | Inr xs \<Rightarrow> Inr [xs])"

definition identity_scaler :: scaler where
  "identity_scaler = \<lparr>transform = (\<lambda>t. Inr t)\<rparr>"

definition failing_scaler :: scaler where
  "failing_scaler = \<lparr>transform = (\<lambda>t. Inl (ValueError ''X has the wrong number of features''))\<rparr>"

definition tensor_model :: "pyfloat list list \<Rightarrow> interpreter" where
  "tensor_model out = \<lparr>get_details = Inr (), run = (\<lambda>t. Inr out)\<rparr>"

definition constant_model :: "pyfloat list \<Rightarrow> interpreter" where
  "constant_model row = \<lparr>get_details = Inr (), run = (\<lambda>t. Inr [row])\<rparr>"

definition unallocated_model :: interpreter where
  "unallocated_model =
     \<lparr>get_details = Inl (RuntimeError ''Interpreter is not allocated''),
      run = (\<lambda>t. Inr [])\<rparr>"

definition failing_model :: interpreter where
  "failing_model =
     \<lparr>get_details = Inr (),
      run = (\<lambda>t. Inl (ValueError ''Cannot set tensor: Dimension mismatch''))\<rparr>"

definition example_crop_row :: "pyfloat list" where
  "example_crop_row = replicate 20 (Finite 0) @ [Finite 0.9, Finite 0.1]"

definition long_row :: "pyfloat list" where
  "long_row = replicate 22 (Finite 0) @ [Finite 1]"

definition example_env :: env where
  "example_env =
     \<lparr>crop_model = Some (constant_model example_crop_row),
      soil_model = Some (constant_model [Finite 0.1, Finite 0.2, Finite 0.7]),
      crop_scaler = Some identity_scaler,
      soil_scaler = Some identity_scaler,
      np_array = example_np_array,
      float_round = (\<lambda>x. x)\<rparr>"

definition unloaded_env :: env where
  "unloaded_env =
     \<lparr>crop_model = None, soil_model = None, crop_scaler = None, soil_scaler = None,
      np_array = example_np_array, float_round = (\<lambda>x. x)\<rparr>"

text \<open>The example environment with a soil interpreter whose output row holds a
  NaN.\<close>

definition nan_row_env :: env where
  "nan_row_env =
     \<lparr>crop_model = Some (constant_model example_crop_row),
      soil_model = Some (constant_model [Finite 0.1, NaN, Finite 0.9]),
      crop_scaler = Some identity_scaler,
      soil_scaler = Some identity_scaler,
      np_array = example_np_array,
      float_round = (\<lambda>x. x)\<rparr>"

text \<open>An environment with the same interpreter and the same scaler under both
  pairs of globals.\<close>

definition both_env :: "interpreter option \<Rightarrow> scaler option \<Rightarrow> env" where
  "both_env mo so =
     \<lparr>crop_model = mo, soil_model = mo, crop_scaler = so, soil_scaler = so,
      np_array = example_np_array, float_round = (\<lambda>x. x)\<rparr>"

definition example_crop_features :: "json list" where
  "example_crop_features =
     [JInt 90, JInt 42, JInt 43, JFloat (Finite 20.9), JFloat (Finite 82.0),
      JFloat (Finite 6.5), JFloat (Finite 202.9)]"

definition example_soil_features :: "json list" where
  "example_soil_features = [JInt 90, JInt 42, JInt 43, JFloat (Finite 6.5)]"

definition crop_payload :: dict where
  "crop_payload =
     [(''N'', JInt 90), (''P'', JInt 42), (''K'', JInt 43),
      (''temperature'', JFloat (Finite 20.9)), (''humidity'', JFloat (Finite 82.0)),
      (''ph'', JFloat (Finite 6.5)), (''rainfall'', JFloat (Finite 202.9))]"

definition crop_payload_without_N :: dict where
  "crop_payload_without_N =
     [(''P'', JInt 42), (''K'', JInt 43), (''temperature'', JFloat (Finite 20.9)),
      (''humidity'', JFloat (Finite 82.0)), (''ph'', JFloat (Finite 6.5)),
      (''rainfall'', JFloat (Finite 202.9))]"

definition combined_payload_ph_only :: dict where
  "combined_payload_ph_only = crop_payload"

definition sensor_payload :: dict where
  "sensor_payload = [(''soilPH'', JFloat (Finite 650)), (''nitrogen'', JInt 90)]"

section \<open>What an error message names\<close>

text \<open>
  A message names a field when it contains the field's name in quotes. The
  second predicate is the reading of the specification: the message names
  exactly the required crop fields that are absent from the payload.
\<close>

definition message_names :: "string \<Rightarrow> string \<Rightarrow> bool" where
  "message_names msg field = sublist (py_repr_str field) msg"

definition names_exactly_absent :: "string \<Rightarrow> dict \<Rightarrow> bool" where
  "names_exactly_absent msg data =
     list_all (\<lambda>f. message_names msg f = (\<not> py_in f data)) crop_required_fields"

text \<open>The reading of the specification for the reported confidence: it is the
  maximum of the output row, no entry of the row exceeds it.\<close>

definition is_maximum_of :: "pyfloat list \<Rightarrow> pyfloat \<Rightarrow> bool" where
  "is_maximum_of row c = (c \<in> set row \<and> list_all (\<lambda>v. float_le v c) row)"

section \<open>Properties of the float order and the reductions\<close>

lemma float_le_not_nan: "float_le a b \<Longrightarrow> a \<noteq> NaN \<and> b \<noteq> NaN"
  by (cases a; cases b; simp)

lemma float_le_refl: "a \<noteq> NaN \<Longrightarrow> float_le a a"
  by (cases a; simp)

lemma float_le_trans: "float_le a b \<Longrightarrow> float_le b c \<Longrightarrow> float_le a c"
  by (cases a; cases b; cases c; simp)

lemma float_le_antisym: "float_le a b \<Longrightarrow> float_le b a \<Longrightarrow> a = b"
  by (cases a; cases b; simp)

lemma float_le_total: "a \<noteq> NaN \<Longrightarrow> b \<noteq> NaN \<Longrightarrow> float_le a b \<or> float_le b a"
  by (cases a; cases b; auto)

lemma argmax_loop_spec:
  assumes "length pre = i" and "mi < i" and "pre ! mi = mp" and "NaN \<notin> set pre"
    and "\<forall>v \<in> set pre. float_le v mp" and "\<forall>j < mi. pre ! j \<noteq> mp"
  shows "argmax_loop mp mi i xs < length (pre @ xs)
    \<and> (NaN \<notin> set xs \<longrightarrow>
          (\<forall>v \<in> set (pre @ xs). float_le v ((pre @ xs) ! argmax_loop mp mi i xs))
          \<and> (\<forall>j < argmax_loop mp mi i xs. (pre @ xs) ! j \<noteq> (pre @ xs) ! argmax_loop mp mi i xs))
    \<and> (NaN \<in> set xs \<longrightarrow>
          (pre @ xs) ! argmax_loop mp mi i xs = NaN
          \<and> (\<forall>j < argmax_loop mp mi i xs. (pre @ xs) ! j \<noteq> NaN))"
  using assms
proof (induction xs arbitrary: pre mp mi i)
  case Nil
  then show ?case by auto
next
  case (Cons x xs)
  show ?case
  proof (cases "float_le x mp")
    case True
    then have xn: "x \<noteq> NaN" using float_le_not_nan by blast
    let ?pre = "pre @ [x]"
    have a1: "length ?pre = Suc i" using Cons.prems by simp
    have a2: "mi < Suc i" using Cons.prems by simp
    have a3: "?pre ! mi = mp" using Cons.prems by (simp add: nth_append)
    have a4: "NaN \<notin> set ?pre" using Cons.prems xn by auto
    have a5: "\<forall>v \<in> set ?pre. float_le v mp" using Cons.prems True by auto
    have a6: "\<forall>j < mi. ?pre ! j \<noteq> mp" using Cons.prems by (simp add: nth_append)
    from Cons.IH [OF a1 a2 a3 a4 a5 a6] True xn show ?thesis by simp
  next
    case False
    show ?thesis
    proof (cases "x = NaN")
      case True
      have "\<forall>j < i. (pre @ x # xs) ! j \<noteq> NaN"
      proof (intro allI impI)
        fix j assume j: "j < i"
        then have "pre ! j \<in> set pre" using Cons.prems by simp
        then have "pre ! j \<noteq> NaN" using Cons.prems by metis
        then show "(pre @ x # xs) ! j \<noteq> NaN" using j Cons.prems by (simp add: nth_append)
      qed
      with True False Cons.prems show ?thesis by (auto simp: nth_append)
    next
      case xn: False
      have mpn: "mp \<noteq> NaN" using Cons.prems by (metis nth_mem)
      then have lt: "float_le mp x" using False xn float_le_total by blast
      let ?pre = "pre @ [x]"
      have a1: "length ?pre = Suc i" using Cons.prems by simp
      have a2: "i < Suc i" by simp
      have a3: "?pre ! i = x" using Cons.prems by (simp add: nth_append)
      have a4: "NaN \<notin> set ?pre" using Cons.prems xn by auto
      have a5: "\<forall>v \<in> set ?pre. float_le v x"
        using Cons.prems lt xn by (auto intro: float_le_trans float_le_refl)
      have a6: "\<forall>j < i. ?pre ! j \<noteq> x"
      proof (intro allI impI)
        fix j assume "j < i"
        then have "float_le (pre ! j) mp" using Cons.prems by (metis nth_mem)
        with False show "?pre ! j \<noteq> x" using \<open>j < i\<close> Cons.prems by (auto simp: nth_append)
      qed
      from Cons.IH [OF a1 a2 a3 a4 a5 a6] False xn show ?thesis by simp
    qed
  qed
qed

lemma foldl_maximum_nan: "a = NaN \<or> NaN \<in> set xs \<Longrightarrow> foldl float_maximum a xs = NaN"
  by (induction xs arbitrary: a) (auto simp: float_maximum_def)

lemma foldl_maximum_greatest:
  "a \<noteq> NaN \<Longrightarrow> NaN \<notin> set xs \<Longrightarrow>
     foldl float_maximum a xs \<in> set (a # xs)
     \<and> (\<forall>v \<in> set (a # xs). float_le v (foldl float_maximum a xs))"
proof (induction xs arbitrary: a)
  case Nil
  then show ?case by (simp add: float_le_refl)
next
  case (Cons x xs)
  let ?b = "float_maximum a x"
  have b: "?b \<noteq> NaN" "?b = a \<or> ?b = x" "float_le a ?b" "float_le x ?b"
    using Cons.prems float_le_total [of a x]
    by (auto simp: float_maximum_def float_le_refl)
  have "NaN \<notin> set xs" using Cons.prems by simp
  from Cons.IH [OF b(1) this] b(2,3,4) show ?case
    by (auto intro: float_le_trans)
qed

lemma np_argmax_Inr: "row \<noteq> [] \<Longrightarrow> \<exists>i. np_argmax row = Inr i"
  by (cases row) (simp_all add: np_argmax_def)

lemma np_argmax_props:
  assumes "np_argmax row = Inr i"
  shows "i < length row
    \<and> (NaN \<notin> set row \<longrightarrow> (\<forall>v \<in> set row. float_le v (row ! i)) \<and> (\<forall>j < i. row ! j \<noteq> row ! i))
    \<and> (NaN \<in> set row \<longrightarrow> row ! i = NaN \<and> (\<forall>j < i. row ! j \<noteq> NaN))"
proof (cases row)
  case Nil
  with assms show ?thesis by (simp add: np_argmax_def)
next
  case (Cons x rest)
  show ?thesis
  proof (cases "x = NaN")
    case True
    with Cons assms show ?thesis by (auto simp: np_argmax_def)
  next
    case False
    have i: "i = argmax_loop x 0 1 rest" using assms Cons False by (simp add: np_argmax_def)
    have "length [x] = 1" "0 < (1::nat)" "[x] ! 0 = x" "NaN \<notin> set [x]"
      "\<forall>v \<in> set [x]. float_le v x" "\<forall>j < (0::nat). [x] ! j \<noteq> x"
      using False by (simp_all add: float_le_refl)
    from argmax_loop_spec [OF this, of rest] show ?thesis
      unfolding i Cons using False by auto
  qed
qed

lemma np_max_at_argmax:
  assumes "np_argmax row = Inr i"
  shows "np_max row = Inr (row ! i)"
proof (cases row)
  case Nil
  with assms show ?thesis by (simp add: np_argmax_def)
next
  case (Cons x rest)
  note p = np_argmax_props [OF assms]
  show ?thesis
  proof (cases "NaN \<in> set row")
    case True
    then have "foldl float_maximum x rest = NaN"
      using Cons foldl_maximum_nan [of x rest] by auto
    moreover from p True have "row ! i = NaN" by blast
    ultimately show ?thesis using Cons by (simp add: np_max_def)
  next
    case False
    then have "x \<noteq> NaN" "NaN \<notin> set rest" using Cons by auto
    from foldl_maximum_greatest [OF this]
    have m: "foldl float_maximum x rest \<in> set row"
      "\<forall>v \<in> set row. float_le v (foldl float_maximum x rest)"
      using Cons by auto
    have "row ! i \<in> set row" using p by simp
    with m(2) have 1: "float_le (row ! i) (foldl float_maximum x rest)" by blast
    from p False m(1) have 2: "float_le (foldl float_maximum x rest) (row ! i)" by blast
    from float_le_antisym [OF 1 2] Cons show ?thesis by (simp add: np_max_def)
  qed
qed

section \<open>Properties of the prediction helpers\<close>

lemma build_result_Inr:
  assumes "build_result key labels out = Inr d"
  shows "\<exists>row rest i. out = row # rest \<and> np_argmax row = Inr i \<and> i < length labels
           \<and> d = [(key, JStr (labels ! i)), (''confidence'', JFloat (row ! i)),
                  (''class_index'', JInt (int i))]"
proof -
  from assms obtain row rest where out: "out = row # rest"
    by (cases out) (simp_all add: build_result_def first_row_def)
  from assms out obtain i where i: "np_argmax row = Inr i"
    by (cases "np_argmax row") (simp_all add: build_result_def first_row_def)
  from assms out i have "i < length labels"
     and "d = [(key, JStr (labels ! i)), (''confidence'', JFloat (row ! i)),
               (''class_index'', JInt (int i))]"
    by (auto simp: build_result_def first_row_def np_max_at_argmax [OF i] label_at_def
             split: if_splits)
  with out i show ?thesis by blast
qed

lemma build_result_ok:
  assumes "np_argmax row = Inr i" and "i < length labels"
  shows "build_result key labels (row # rest) =
           Inr [(key, JStr (labels ! i)), (''confidence'', JFloat (row ! i)),
                (''class_index'', JInt (int i))]"
  using assms
  by (simp add: build_result_def first_row_def np_max_at_argmax [OF assms(1)] label_at_def)

lemma predict_crop_cases:
  "(\<exists>e. predict_crop env x = [(''error'', JStr (str_exc e))])
   \<or> (\<exists>row rest i. model_output (crop_model env) (crop_scaler env) (np_array env) x
                     = Inr (row # rest)
        \<and> np_argmax row = Inr i \<and> i < length CROP_LABELS
        \<and> predict_crop env x =
            [(''predicted_crop'', JStr (CROP_LABELS ! i)), (''confidence'', JFloat (row ! i)),
             (''class_index'', JInt (int i))])"
proof (cases "model_output (crop_model env) (crop_scaler env) (np_array env) x")
  case (Inl e)
  then show ?thesis by (auto simp: predict_crop_def catch_error_def)
next
  case (Inr out)
  show ?thesis
  proof (cases "build_result ''predicted_crop'' CROP_LABELS out")
    case (Inl e)
    with Inr show ?thesis by (auto simp: predict_crop_def catch_error_def)
  next
    case inner: (Inr d)
    from build_result_Inr [OF inner] Inr inner show ?thesis
      by (auto simp: predict_crop_def catch_error_def)
  qed
qed

lemma predict_soil_cases:
  "(\<exists>e. predict_soil env x = [(''error'', JStr (str_exc e))])
   \<or> (\<exists>row rest i. model_output (soil_model env) (soil_scaler env) (np_array env) x
                     = Inr (row # rest)
        \<and> np_argmax row = Inr i \<and> i < length SOIL_CLASSES
        \<and> predict_soil env x =
            [(''predicted_fertility'', JStr (SOIL_CLASSES ! i)), (''confidence'', JFloat (row ! i)),
             (''class_index'', JInt (int i))])"
proof (cases "model_output (soil_model env) (soil_scaler env) (np_array env) x")
  case (Inl e)
  then show ?thesis by (auto simp: predict_soil_def catch_error_def)
next
  case (Inr out)
  show ?thesis
  proof (cases "build_result ''predicted_fertility'' SOIL_CLASSES out")
    case (Inl e)
    with Inr show ?thesis by (auto simp: predict_soil_def catch_error_def)
  next
    case inner: (Inr d)
    from build_result_Inr [OF inner] Inr inner show ?thesis
      by (auto simp: predict_soil_def catch_error_def)
  qed
qed

lemma example_crop_output:
  "model_output (crop_model example_env) (crop_scaler example_env) (np_array example_env)
     example_crop_features = Inr [example_crop_row]"
  by (simp add: model_output_def example_env_def constant_model_def identity_scaler_def
        example_np_array_def example_crop_features_def)

lemma example_soil_output:
  "model_output (soil_model example_env) (soil_scaler example_env) (np_array example_env)
     example_soil_features = Inr [[Finite 0.1, Finite 0.2, Finite 0.7]]"
  by (simp add: model_output_def example_env_def constant_model_def identity_scaler_def
        example_np_array_def example_soil_features_def)

lemma example_crop_argmax: "np_argmax example_crop_row = Inr 20"
  by (simp add: np_argmax_def example_crop_row_def numeral_eq_Suc)

lemma example_crop_row_20: "example_crop_row ! 20 = Finite 0.9"
  by (simp add: example_crop_row_def numeral_eq_Suc)

lemma example_predict_crop:
  "predict_crop example_env example_crop_features =
     [(''predicted_crop'', JStr ''rice''), (''confidence'', JFloat (Finite 0.9)),
      (''class_index'', JInt 20)]"
proof -
  have lt: "20 < length CROP_LABELS" by (simp add: CROP_LABELS_def)
  have "CROP_LABELS ! 20 = ''rice''" by (simp add: CROP_LABELS_def)
  then show ?thesis
    by (simp add: predict_crop_def example_crop_output catch_error_def
          build_result_ok [OF example_crop_argmax lt] example_crop_row_20)
qed

lemma example_predict_soil:
  "predict_soil example_env example_soil_features =
     [(''predicted_fertility'', JStr ''High''), (''confidence'', JFloat (Finite 0.7)),
      (''class_index'', JInt 2)]"
proof -
  have am: "np_argmax [Finite 0.1, Finite 0.2, Finite 0.7] = Inr 2"
    by (simp add: np_argmax_def)
  have lt: "2 < length SOIL_CLASSES" by (simp add: SOIL_CLASSES_def)
  note br = build_result_ok [OF am lt, of "''predicted_fertility''" "[]"]
  show ?thesis
    unfolding predict_soil_def example_soil_output sum.case br catch_error_def
    by (simp add: SOIL_CLASSES_def)
qed

lemma nan_row_output:
  "model_output (soil_model nan_row_env) (soil_scaler nan_row_env) (np_array nan_row_env)
     example_soil_features = Inr [[Finite 0.1, NaN, Finite 0.9]]"
  by (simp add: model_output_def nan_row_env_def constant_model_def identity_scaler_def
        example_np_array_def example_soil_features_def)

lemma nan_row_predict_soil:
  "predict_soil nan_row_env example_soil_features =
     [(''predicted_fertility'', JStr ''Mild''), (''confidence'', JFloat NaN),
      (''class_index'', JInt 1)]"
proof -
  have am: "np_argmax [Finite 0.1, NaN, Finite 0.9] = Inr 1"
    by (simp add: np_argmax_def)
  have lt: "1 < length SOIL_CLASSES" by (simp add: SOIL_CLASSES_def)
  note br = build_result_ok [OF am lt, of "''predicted_fertility''" "[]"]
  show ?thesis
    unfolding predict_soil_def nan_row_output sum.case br catch_error_def
    by (simp add: SOIL_CLASSES_def)
qed

lemma helper_outcome:
  assumes r: "result = catch_error
       (case model_output model sc to_array x of
          Inl e \<Rightarrow> Inl e
        | Inr out \<Rightarrow> build_result key labels out)"
  shows "(model = None \<longrightarrow>
        result = [(''error'', JStr (str_exc (none_has_no_attribute ''get_input_details'')))])
   \<and> (\<forall>m. model = Some m \<longrightarrow>
        (\<forall>e. get_details m = Inl e \<longrightarrow> result = [(''error'', JStr (str_exc e))])
      \<and> (get_details m = Inr () \<longrightarrow>
           (\<forall>e. to_array x = Inl e \<longrightarrow> result = [(''error'', JStr (str_exc e))])
         \<and> (\<forall>input_array. to_array x = Inr input_array \<longrightarrow>
              (sc = None \<longrightarrow>
                 result = [(''error'', JStr (str_exc (none_has_no_attribute ''transform'')))])
            \<and> (\<forall>s. sc = Some s \<longrightarrow>
                 (\<forall>e. transform s input_array = Inl e \<longrightarrow>
                    result = [(''error'', JStr (str_exc e))])
               \<and> (\<forall>scaled. transform s input_array = Inr scaled \<longrightarrow>
                    (\<forall>e. run m scaled = Inl e \<longrightarrow> result = [(''error'', JStr (str_exc e))])
                  \<and> (run m scaled = Inr [] \<longrightarrow>
                       result = [(''error'',
                          JStr ''index 0 is out of bounds for axis 0 with size 0'')])
                  \<and> (\<forall>rest. run m scaled = Inr ([] # rest) \<longrightarrow>
                       result = [(''error'',
                          JStr ''attempt to get argmax of an empty sequence'')])
                  \<and> (\<forall>row rest i. run m scaled = Inr (row # rest) \<and> np_argmax row = Inr i \<longrightarrow>
                       (length labels \<le> i \<longrightarrow>
                          result = [(''error'', JStr ''list index out of range'')])
                     \<and> (i < length labels \<longrightarrow>
                          result = [(key, JStr (labels ! i)), (''confidence'', JFloat (row ! i)),
                                    (''class_index'', JInt (int i))])))))))"
  unfolding r
  by (auto simp: model_output_def catch_error_def build_result_def first_row_def
        label_at_def np_max_at_argmax np_argmax_def)


section \<open>Claims about the prediction helpers\<close>

text \<open>
  C8, as stated, fails on an output row that holds a NaN: for the row
  \<open>[0.1, NaN, 0.9]\<close> the soil prediction succeeds with class index 1 and
  confidence NaN, while the largest entry, 0.9, is at index 2; the reported
  confidence is not the maximum of the row.
\<close>

theorem prediction_on_nan_row_reports_nan:
  "model_output (soil_model nan_row_env) (soil_scaler nan_row_env) (np_array nan_row_env)
     example_soil_features = Inr [[Finite 0.1, NaN, Finite 0.9]]
   \<and> predict_soil nan_row_env example_soil_features =
       [(''predicted_fertility'', JStr ''Mild''), (''confidence'', JFloat NaN),
        (''class_index'', JInt 1)]
   \<and> \<not> py_in ''error'' (predict_soil nan_row_env example_soil_features)
   \<and> \<not> float_le ([Finite 0.1, NaN, Finite 0.9] ! 2) ([Finite 0.1, NaN, Finite 0.9] ! 1)
   \<and> \<not> is_maximum_of [Finite 0.1, NaN, Finite 0.9] NaN"
  by (simp add: nan_row_output nan_row_predict_soil py_in_def is_maximum_of_def)

text \<open>
  C8, amended. For every successful prediction (crop or soil, that is, a result
  without an \<^verbatim>\<open>error\<close> key), the reported confidence is the entry of the
  model's output row at the reported class index, read from the row as it is.
  When the row holds no NaN, no entry of the row exceeds that entry and the
  index is the first at which it occurs. When the row holds a NaN, the index is
  that of the first NaN and the confidence is NaN.
\<close>

theorem prediction_reports_argmax_and_max:
  "(\<not> py_in ''error'' (predict_crop env x) \<longrightarrow>
      (\<exists>row rest i. model_output (crop_model env) (crop_scaler env) (np_array env) x
                       = Inr (row # rest)
         \<and> i < length row
         \<and> map_of (predict_crop env x) ''class_index'' = Some (JInt (int i))
         \<and> map_of (predict_crop env x) ''confidence'' = Some (JFloat (row ! i))
         \<and> (NaN \<notin> set row \<longrightarrow>
               (\<forall>v \<in> set row. float_le v (row ! i)) \<and> (\<forall>j < i. row ! j \<noteq> row ! i))
         \<and> (NaN \<in> set row \<longrightarrow> row ! i = NaN \<and> (\<forall>j < i. row ! j \<noteq> NaN))))
   \<and> (\<not> py_in ''error'' (predict_soil env x) \<longrightarrow>
      (\<exists>row rest i. model_output (soil_model env) (soil_scaler env) (np_array env) x
                       = Inr (row # rest)
         \<and> i < length row
         \<and> map_of (predict_soil env x) ''class_index'' = Some (JInt (int i))
         \<and> map_of (predict_soil env x) ''confidence'' = Some (JFloat (row ! i))
         \<and> (NaN \<notin> set row \<longrightarrow>
               (\<forall>v \<in> set row. float_le v (row ! i)) \<and> (\<forall>j < i. row ! j \<noteq> row ! i))
         \<and> (NaN \<in> set row \<longrightarrow> row ! i = NaN \<and> (\<forall>j < i. row ! j \<noteq> NaN))))"
proof (intro conjI impI)
  assume ok: "\<not> py_in ''error'' (predict_crop env x)"
  from predict_crop_cases [of env x] ok obtain row rest i where
    out: "model_output (crop_model env) (crop_scaler env) (np_array env) x = Inr (row # rest)"
    and am: "np_argmax row = Inr i"
    and res: "predict_crop env x =
        [(''predicted_crop'', JStr (CROP_LABELS ! i)), (''confidence'', JFloat (row ! i)),
         (''class_index'', JInt (int i))]"
    by (auto simp: py_in_def)
  note p = np_argmax_props [OF am]
  have "map_of (predict_crop env x) ''class_index'' = Some (JInt (int i))"
    by (simp add: res)
  moreover have "map_of (predict_crop env x) ''confidence'' = Some (JFloat (row ! i))"
    by (simp add: res)
  ultimately show "\<exists>row rest i.
      model_output (crop_model env) (crop_scaler env) (np_array env) x = Inr (row # rest)
      \<and> i < length row
      \<and> map_of (predict_crop env x) ''class_index'' = Some (JInt (int i))
      \<and> map_of (predict_crop env x) ''confidence'' = Some (JFloat (row ! i))
      \<and> (NaN \<notin> set row \<longrightarrow>
            (\<forall>v \<in> set row. float_le v (row ! i)) \<and> (\<forall>j < i. row ! j \<noteq> row ! i))
      \<and> (NaN \<in> set row \<longrightarrow> row ! i = NaN \<and> (\<forall>j < i. row ! j \<noteq> NaN))"
    using out p by blast
next
  assume ok: "\<not> py_in ''error'' (predict_soil env x)"
  from predict_soil_cases [of env x] ok obtain row rest i where
    out: "model_output (soil_model env) (soil_scaler env) (np_array env) x = Inr (row # rest)"
    and am: "np_argmax row = Inr i"
    and res: "predict_soil env x =
        [(''predicted_fertility'', JStr (SOIL_CLASSES ! i)), (''confidence'', JFloat (row ! i)),
         (''class_index'', JInt (int i))]"
    by (auto simp: py_in_def)
  note p = np_argmax_props [OF am]
  have "map_of (predict_soil env x) ''class_index'' = Some (JInt (int i))"
    by (simp add: res)
  moreover have "map_of (predict_soil env x) ''confidence'' = Some (JFloat (row ! i))"
    by (simp add: res)
  ultimately show "\<exists>row rest i.
      model_output (soil_model env) (soil_scaler env) (np_array env) x = Inr (row # rest)
      \<and> i < length row
      \<and> map_of (predict_soil env x) ''class_index'' = Some (JInt (int i))
      \<and> map_of (predict_soil env x) ''confidence'' = Some (JFloat (row ! i))
      \<and> (NaN \<notin> set row \<longrightarrow>
            (\<forall>v \<in> set row. float_le v (row ! i)) \<and> (\<forall>j < i. row ! j \<noteq> row ! i))
      \<and> (NaN \<in> set row \<longrightarrow> row ! i = NaN \<and> (\<forall>j < i. row ! j \<noteq> NaN))"
    using out p by blast
qed

theorem prediction_reports_argmax_and_max_witness:
  "\<not> py_in ''error'' (predict_crop example_env example_crop_features)
   \<and> NaN \<notin> set example_crop_row
   \<and> (\<exists>i < length example_crop_row.
        map_of (predict_crop example_env example_crop_features) ''class_index''
          = Some (JInt (int i))
        \<and> map_of (predict_crop example_env example_crop_features) ''confidence''
          = Some (JFloat (example_crop_row ! i))
        \<and> (\<forall>v \<in> set example_crop_row. float_le v (example_crop_row ! i))
        \<and> (\<forall>j < i. example_crop_row ! j \<noteq> example_crop_row ! i))
   \<and> \<not> py_in ''error'' (predict_soil nan_row_env example_soil_features)
   \<and> NaN \<in> set [Finite 0.1, NaN, Finite 0.9]
   \<and> (\<exists>i < length [Finite 0.1, NaN, Finite 0.9].
        map_of (predict_soil nan_row_env example_soil_features) ''class_index''
          = Some (JInt (int i))
        \<and> map_of (predict_soil nan_row_env example_soil_features) ''confidence''
          = Some (JFloat NaN)
        \<and> [Finite 0.1, NaN, Finite 0.9] ! i = NaN
        \<and> (\<forall>j < i. [Finite 0.1, NaN, Finite 0.9] ! j \<noteq> NaN))"
proof -
  have c: "\<not> py_in ''error'' (predict_crop example_env example_crop_features)"
    by (simp add: example_predict_crop py_in_def)
  have cn: "NaN \<notin> set example_crop_row"
    by (auto simp: example_crop_row_def)
  have s: "\<not> py_in ''error'' (predict_soil nan_row_env example_soil_features)"
    by (simp add: nan_row_predict_soil py_in_def)
  have sn: "NaN \<in> set [Finite 0.1, NaN, Finite 0.9]" by simp
  from prediction_reports_argmax_and_max [of example_env example_crop_features] c
  obtain row rest i where
    "model_output (crop_model example_env) (crop_scaler example_env) (np_array example_env)
       example_crop_features = Inr (row # rest)"
    and ci: "i < length row"
      "map_of (predict_crop example_env example_crop_features) ''class_index''
         = Some (JInt (int i))"
      "map_of (predict_crop example_env example_crop_features) ''confidence''
         = Some (JFloat (row ! i))"
      "NaN \<notin> set row \<longrightarrow>
         (\<forall>v \<in> set row. float_le v (row ! i)) \<and> (\<forall>j < i. row ! j \<noteq> row ! i)"
    by blast
  then have crow: "row = example_crop_row" by (simp add: example_crop_output)
  from prediction_reports_argmax_and_max [of nan_row_env example_soil_features] s
  obtain row' rest' k where
    "model_output (soil_model nan_row_env) (soil_scaler nan_row_env) (np_array nan_row_env)
       example_soil_features = Inr (row' # rest')"
    and si: "k < length row'"
      "map_of (predict_soil nan_row_env example_soil_features) ''class_index''
         = Some (JInt (int k))"
      "map_of (predict_soil nan_row_env example_soil_features) ''confidence''
         = Some (JFloat (row' ! k))"
      "NaN \<in> set row' \<longrightarrow> row' ! k = NaN \<and> (\<forall>j < k. row' ! j \<noteq> NaN)"
    by blast
  then have srow: "row' = [Finite 0.1, NaN, Finite 0.9]" by (simp add: nan_row_output)
  have 1: "\<exists>i < length example_crop_row.
        map_of (predict_crop example_env example_crop_features) ''class_index''
          = Some (JInt (int i))
        \<and> map_of (predict_crop example_env example_crop_features) ''confidence''
          = Some (JFloat (example_crop_row ! i))
        \<and> (\<forall>v \<in> set example_crop_row. float_le v (example_crop_row ! i))
        \<and> (\<forall>j < i. example_crop_row ! j \<noteq> example_crop_row ! i)"
    using ci cn unfolding crow by blast
  have 2: "\<exists>i < length [Finite 0.1, NaN, Finite 0.9].
        map_of (predict_soil nan_row_env example_soil_features) ''class_index''
          = Some (JInt (int i))
        \<and> map_of (predict_soil nan_row_env example_soil_features) ''confidence''
          = Some (JFloat NaN)
        \<and> [Finite 0.1, NaN, Finite 0.9] ! i = NaN
        \<and> (\<forall>j < i. [Finite 0.1, NaN, Finite 0.9] ! j \<noteq> NaN)"
    using si sn unfolding srow by metis
  from c cn 1 s sn 2 show ?thesis by blast
qed

text \<open>
  C9. The label tables have 22 and 3 entries. Whenever the model's output row
  has as many entries as the label table, the prediction succeeds with a class
  index below that number and the label found at that index: the lookup never
  leaves the table.
\<close>

theorem class_index_within_label_table:
  "length CROP_LABELS = 22 \<and> length SOIL_CLASSES = 3
   \<and> (model_output (crop_model env) (crop_scaler env) (np_array env) x = Inr (row # rest)
        \<and> length row = length CROP_LABELS \<longrightarrow>
      (\<exists>i < length CROP_LABELS.
         predict_crop env x =
           [(''predicted_crop'', JStr (CROP_LABELS ! i)), (''confidence'', JFloat (row ! i)),
            (''class_index'', JInt (int i))]))
   \<and> (model_output (soil_model env) (soil_scaler env) (np_array env) x = Inr (row # rest)
        \<and> length row = length SOIL_CLASSES \<longrightarrow>
      (\<exists>i < length SOIL_CLASSES.
         predict_soil env x =
           [(''predicted_fertility'', JStr (SOIL_CLASSES ! i)), (''confidence'', JFloat (row ! i)),
            (''class_index'', JInt (int i))]))"
proof (intro conjI impI)
  show "length CROP_LABELS = 22" by (simp add: CROP_LABELS_def)
  show "length SOIL_CLASSES = 3" by (simp add: SOIL_CLASSES_def)
next
  assume a: "model_output (crop_model env) (crop_scaler env) (np_array env) x
               = Inr (row # rest) \<and> length row = length CROP_LABELS"
  then have ne: "row \<noteq> []" by (auto simp: CROP_LABELS_def)
  from np_argmax_Inr [OF ne] obtain i where am: "np_argmax row = Inr i" by blast
  have lt: "i < length CROP_LABELS" using np_argmax_props [OF am] a by simp
  have "predict_crop env x =
          [(''predicted_crop'', JStr (CROP_LABELS ! i)), (''confidence'', JFloat (row ! i)),
           (''class_index'', JInt (int i))]"
    using a by (simp add: predict_crop_def build_result_ok [OF am lt] catch_error_def)
  with lt show "\<exists>i < length CROP_LABELS.
         predict_crop env x =
           [(''predicted_crop'', JStr (CROP_LABELS ! i)), (''confidence'', JFloat (row ! i)),
            (''class_index'', JInt (int i))]"
    by blast
next
  assume a: "model_output (soil_model env) (soil_scaler env) (np_array env) x
               = Inr (row # rest) \<and> length row = length SOIL_CLASSES"
  then have ne: "row \<noteq> []" by (auto simp: SOIL_CLASSES_def)
  from np_argmax_Inr [OF ne] obtain i where am: "np_argmax row = Inr i" by blast
  have lt: "i < length SOIL_CLASSES" using np_argmax_props [OF am] a by simp
  have "predict_soil env x =
          [(''predicted_fertility'', JStr (SOIL_CLASSES ! i)), (''confidence'', JFloat (row ! i)),
           (''class_index'', JInt (int i))]"
    using a by (simp add: predict_soil_def build_result_ok [OF am lt] catch_error_def)
  with lt show "\<exists>i < length SOIL_CLASSES.
         predict_soil env x =
           [(''predicted_fertility'', JStr (SOIL_CLASSES ! i)), (''confidence'', JFloat (row ! i)),
            (''class_index'', JInt (int i))]"
    by blast
qed

theorem class_index_within_label_table_witness:
  "model_output (crop_model example_env) (crop_scaler example_env) (np_array example_env)
     example_crop_features = Inr (example_crop_row # [])
   \<and> length example_crop_row = length CROP_LABELS
   \<and> (\<exists>i < length CROP_LABELS.
         predict_crop example_env example_crop_features =
           [(''predicted_crop'', JStr (CROP_LABELS ! i)),
            (''confidence'', JFloat (example_crop_row ! i)), (''class_index'', JInt (int i))])
   \<and> model_output (soil_model example_env) (soil_scaler example_env) (np_array example_env)
       example_soil_features = Inr ([Finite 0.1, Finite 0.2, Finite 0.7] # [])
   \<and> length [Finite 0.1, Finite 0.2, Finite 0.7] = length SOIL_CLASSES
   \<and> (\<exists>i < length SOIL_CLASSES.
         predict_soil example_env example_soil_features =
           [(''predicted_fertility'', JStr (SOIL_CLASSES ! i)),
            (''confidence'', JFloat ([Finite 0.1, Finite 0.2, Finite 0.7] ! i)),
            (''class_index'', JInt (int i))])"
proof -
  have c1: "model_output (crop_model example_env) (crop_scaler example_env)
              (np_array example_env) example_crop_features = Inr (example_crop_row # [])"
    by (rule example_crop_output)
  have c2: "length example_crop_row = length CROP_LABELS"
    by (simp add: example_crop_row_def CROP_LABELS_def)
  have s1: "model_output (soil_model example_env) (soil_scaler example_env)
              (np_array example_env) example_soil_features
            = Inr ([Finite 0.1, Finite 0.2, Finite 0.7] # [])"
    by (rule example_soil_output)
  have s2: "length [Finite 0.1, Finite 0.2, Finite 0.7] = length SOIL_CLASSES"
    by (simp add: SOIL_CLASSES_def)
  from class_index_within_label_table
         [of example_env example_crop_features example_crop_row "[]"] c1 c2
  have c3: "\<exists>i < length CROP_LABELS.
         predict_crop example_env example_crop_features =
           [(''predicted_crop'', JStr (CROP_LABELS ! i)),
            (''confidence'', JFloat (example_crop_row ! i)), (''class_index'', JInt (int i))]"
    by blast
  from class_index_within_label_table
         [of example_env example_soil_features "[Finite 0.1, Finite 0.2, Finite 0.7]" "[]"]
       s1 s2
  have s3: "\<exists>i < length SOIL_CLASSES.
         predict_soil example_env example_soil_features =
           [(''predicted_fertility'', JStr (SOIL_CLASSES ! i)),
            (''confidence'', JFloat ([Finite 0.1, Finite 0.2, Finite 0.7] ! i)),
            (''class_index'', JInt (int i))]"
    by blast
  from c1 c2 c3 s1 s2 s3 show ?thesis by blast
qed

text \<open>
  C10. \<^verbatim>\<open>predict_crop\<close> and \<^verbatim>\<open>predict_soil\<close> return a dict for every
  environment and every input, and each way the body can fail ends in a dict
  whose only entry is \<^verbatim>\<open>error\<close> with the message of that failure: an unset
  model or scaler gives the AttributeError message, an exception raised by
  \<^verbatim>\<open>get_input_details\<close>, \<^verbatim>\<open>np.array\<close>, \<^verbatim>\<open>transform\<close> or the interpreter run
  gives its own message, an empty output tensor or row gives the IndexError or
  ValueError message of numpy, and a class index outside the label table gives
  \<^verbatim>\<open>list index out of range\<close>. In the one remaining case the result is the dict
  of exactly the label, the confidence and the class index.
\<close>

theorem predict_helpers_total:
  "let covers = (\<lambda>result model sc key labels.
       (model = None \<longrightarrow>
          result = [(''error'', JStr (str_exc (none_has_no_attribute ''get_input_details'')))])
     \<and> (\<forall>m. model = Some m \<longrightarrow>
          (\<forall>e. get_details m = Inl e \<longrightarrow> result = [(''error'', JStr (str_exc e))])
        \<and> (get_details m = Inr () \<longrightarrow>
             (\<forall>e. np_array env x = Inl e \<longrightarrow> result = [(''error'', JStr (str_exc e))])
           \<and> (\<forall>input_array. np_array env x = Inr input_array \<longrightarrow>
                (sc = None \<longrightarrow>
                   result = [(''error'', JStr (str_exc (none_has_no_attribute ''transform'')))])
              \<and> (\<forall>s. sc = Some s \<longrightarrow>
                   (\<forall>e. transform s input_array = Inl e \<longrightarrow>
                      result = [(''error'', JStr (str_exc e))])
                 \<and> (\<forall>scaled. transform s input_array = Inr scaled \<longrightarrow>
                      (\<forall>e. run m scaled = Inl e \<longrightarrow> result = [(''error'', JStr (str_exc e))])
                    \<and> (run m scaled = Inr [] \<longrightarrow>
                         result = [(''error'',
                            JStr ''index 0 is out of bounds for axis 0 with size 0'')])
                    \<and> (\<forall>rest. run m scaled = Inr ([] # rest) \<longrightarrow>
                         result = [(''error'',
                            JStr ''attempt to get argmax of an empty sequence'')])
                    \<and> (\<forall>row rest i. run m scaled = Inr (row # rest) \<and> np_argmax row = Inr i \<longrightarrow>
                         (length labels \<le> i \<longrightarrow>
                            result = [(''error'', JStr ''list index out of range'')])
                       \<and> (i < length labels \<longrightarrow>
                            result = [(key, JStr (labels ! i)), (''confidence'', JFloat (row ! i)),
                                      (''class_index'', JInt (int i))]))))))))
   in covers (predict_crop env x) (crop_model env) (crop_scaler env)
        ''predicted_crop'' CROP_LABELS
    \<and> covers (predict_soil env x) (soil_model env) (soil_scaler env)
        ''predicted_fertility'' SOIL_CLASSES
    \<and> ((\<exists>label c i. predict_crop env x =
          [(''predicted_crop'', JStr label), (''confidence'', JFloat c),
           (''class_index'', JInt i)])
       \<or> (\<exists>msg. predict_crop env x = [(''error'', JStr msg)]))
    \<and> ((\<exists>label c i. predict_soil env x =
          [(''predicted_fertility'', JStr label), (''confidence'', JFloat c),
           (''class_index'', JInt i)])
       \<or> (\<exists>msg. predict_soil env x = [(''error'', JStr msg)]))"
proof -
  have d1: "(\<exists>label c i. predict_crop env x =
          [(''predicted_crop'', JStr label), (''confidence'', JFloat c),
           (''class_index'', JInt i)])
       \<or> (\<exists>msg. predict_crop env x = [(''error'', JStr msg)])"
    using predict_crop_cases [of env x] by blast
  have d2: "(\<exists>label c i. predict_soil env x =
          [(''predicted_fertility'', JStr label), (''confidence'', JFloat c),
           (''class_index'', JInt i)])
       \<or> (\<exists>msg. predict_soil env x = [(''error'', JStr msg)])"
    using predict_soil_cases [of env x] by blast
  show ?thesis
    unfolding Let_def
    by (rule conjI [OF helper_outcome [OF predict_crop_def]
              conjI [OF helper_outcome [OF predict_soil_def] conjI [OF d1 d2]]])
qed

theorem predict_helpers_total_witness:
  "(predict_crop (both_env None None)
        example_soil_features =
      [(''error'', JStr (str_exc (none_has_no_attribute ''get_input_details'')))]
    \<and> predict_soil (both_env None None)
        example_soil_features =
      [(''error'', JStr (str_exc (none_has_no_attribute ''get_input_details'')))])
   \<and> (predict_crop (both_env (Some unallocated_model) (Some identity_scaler))
        example_soil_features =
      [(''error'', JStr ''Interpreter is not allocated'')]
    \<and> predict_soil (both_env (Some unallocated_model) (Some identity_scaler))
        example_soil_features =
      [(''error'', JStr ''Interpreter is not allocated'')])
   \<and> (predict_crop (both_env (Some (tensor_model [])) (Some identity_scaler))
        [JStr ''abc''] =
      [(''error'', JStr (''could not convert string to float: '' @ py_repr_str ''abc''))]
    \<and> predict_soil (both_env (Some (tensor_model [])) (Some identity_scaler))
        [JStr ''abc''] =
      [(''error'', JStr (''could not convert string to float: '' @ py_repr_str ''abc''))])
   \<and> (predict_crop (both_env (Some (tensor_model [])) None)
        example_soil_features =
      [(''error'', JStr (str_exc (none_has_no_attribute ''transform'')))]
    \<and> predict_soil (both_env (Some (tensor_model [])) None)
        example_soil_features =
      [(''error'', JStr (str_exc (none_has_no_attribute ''transform'')))])
   \<and> (predict_crop (both_env (Some (tensor_model [])) (Some failing_scaler))
        example_soil_features =
      [(''error'', JStr ''X has the wrong number of features'')]
    \<and> predict_soil (both_env (Some (tensor_model [])) (Some failing_scaler))
        example_soil_features =
      [(''error'', JStr ''X has the wrong number of features'')])
   \<and> (predict_crop (both_env (Some failing_model) (Some identity_scaler))
        example_soil_features =
      [(''error'', JStr ''Cannot set tensor: Dimension mismatch'')]
    \<and> predict_soil (both_env (Some failing_model) (Some identity_scaler))
        example_soil_features =
      [(''error'', JStr ''Cannot set tensor: Dimension mismatch'')])
   \<and> (predict_crop (both_env (Some (tensor_model [])) (Some identity_scaler))
        example_soil_features =
      [(''error'', JStr ''index 0 is out of bounds for axis 0 with size 0'')]
    \<and> predict_soil (both_env (Some (tensor_model [])) (Some identity_scaler))
        example_soil_features =
      [(''error'', JStr ''index 0 is out of bounds for axis 0 with size 0'')])
   \<and> (predict_crop (both_env (Some (tensor_model [[]])) (Some identity_scaler))
        example_soil_features =
      [(''error'', JStr ''attempt to get argmax of an empty sequence'')]
    \<and> predict_soil (both_env (Some (tensor_model [[]])) (Some identity_scaler))
        example_soil_features =
      [(''error'', JStr ''attempt to get argmax of an empty sequence'')])
   \<and> (predict_crop (both_env (Some (tensor_model [long_row])) (Some identity_scaler))
        example_soil_features =
      [(''error'', JStr ''list index out of range'')]
    \<and> predict_soil (both_env (Some (tensor_model [long_row])) (Some identity_scaler))
        example_soil_features =
      [(''error'', JStr ''list index out of range'')])
   \<and> (predict_crop (both_env (Some (tensor_model [[Finite 0.1, Finite 0.2, Finite 0.7]])) (Some identity_scaler))
        example_soil_features =
      [(''predicted_crop'', JStr ''blackgram''), (''confidence'', JFloat (Finite 0.7)),
        (''class_index'', JInt 2)]
    \<and> predict_soil (both_env (Some (tensor_model [[Finite 0.1, Finite 0.2, Finite 0.7]])) (Some identity_scaler))
        example_soil_features =
      [(''predicted_fertility'', JStr ''High''), (''confidence'', JFloat (Finite 0.7)),
        (''class_index'', JInt 2)])"
proof -
  have e1: "(predict_crop (both_env None None)
        example_soil_features =
      [(''error'', JStr (str_exc (none_has_no_attribute ''get_input_details'')))]
    \<and> predict_soil (both_env None None)
        example_soil_features =
      [(''error'', JStr (str_exc (none_has_no_attribute ''get_input_details'')))])"
    using predict_helpers_total [of "both_env None None" "example_soil_features"]
    unfolding Let_def
    by (simp add: both_env_def)
  have e2: "(predict_crop (both_env (Some unallocated_model) (Some identity_scaler))
        example_soil_features =
      [(''error'', JStr ''Interpreter is not allocated'')]
    \<and> predict_soil (both_env (Some unallocated_model) (Some identity_scaler))
        example_soil_features =
      [(''error'', JStr ''Interpreter is not allocated'')])"
    using predict_helpers_total [of "both_env (Some unallocated_model) (Some identity_scaler)" "example_soil_features"]
    unfolding Let_def
    by (simp add: both_env_def unallocated_model_def)
  have e3: "(predict_crop (both_env (Some (tensor_model [])) (Some identity_scaler))
        [JStr ''abc''] =
      [(''error'', JStr (''could not convert string to float: '' @ py_repr_str ''abc''))]
    \<and> predict_soil (both_env (Some (tensor_model [])) (Some identity_scaler))
        [JStr ''abc''] =
      [(''error'', JStr (''could not convert string to float: '' @ py_repr_str ''abc''))])"
    using predict_helpers_total [of "both_env (Some (tensor_model [])) (Some identity_scaler)" "[JStr ''abc'']"]
    unfolding Let_def
    by (simp add: both_env_def tensor_model_def example_np_array_def)
  have e4: "(predict_crop (both_env (Some (tensor_model [])) None)
        example_soil_features =
      [(''error'', JStr (str_exc (none_has_no_attribute ''transform'')))]
    \<and> predict_soil (both_env (Some (tensor_model [])) None)
        example_soil_features =
      [(''error'', JStr (str_exc (none_has_no_attribute ''transform'')))])"
    using predict_helpers_total [of "both_env (Some (tensor_model [])) None" "example_soil_features"]
    unfolding Let_def
    by (simp add: both_env_def tensor_model_def example_np_array_def example_soil_features_def)
  have e5: "(predict_crop (both_env (Some (tensor_model [])) (Some failing_scaler))
        example_soil_features =
      [(''error'', JStr ''X has the wrong number of features'')]
    \<and> predict_soil (both_env (Some (tensor_model [])) (Some failing_scaler))
        example_soil_features =
      [(''error'', JStr ''X has the wrong number of features'')])"
    using predict_helpers_total [of "both_env (Some (tensor_model [])) (Some failing_scaler)" "example_soil_features"]
    unfolding Let_def
    by (simp add: both_env_def tensor_model_def failing_scaler_def example_np_array_def example_soil_features_def)
  have e6: "(predict_crop (both_env (Some failing_model) (Some identity_scaler))
        example_soil_features =
      [(''error'', JStr ''Cannot set tensor: Dimension mismatch'')]
    \<and> predict_soil (both_env (Some failing_model) (Some identity_scaler))
        example_soil_features =
      [(''error'', JStr ''Cannot set tensor: Dimension mismatch'')])"
    using predict_helpers_total [of "both_env (Some failing_model) (Some identity_scaler)" "example_soil_features"]
    unfolding Let_def
    by (simp add: both_env_def failing_model_def identity_scaler_def example_np_array_def example_soil_features_def)
  have e7: "(predict_crop (both_env (Some (tensor_model [])) (Some identity_scaler))
        example_soil_features =
      [(''error'', JStr ''index 0 is out of bounds for axis 0 with size 0'')]
    \<and> predict_soil (both_env (Some (tensor_model [])) (Some identity_scaler))
        example_soil_features =
      [(''error'', JStr ''index 0 is out of bounds for axis 0 with size 0'')])"
    using predict_helpers_total [of "both_env (Some (tensor_model [])) (Some identity_scaler)" "example_soil_features"]
    unfolding Let_def
    by (simp add: both_env_def tensor_model_def identity_scaler_def example_np_array_def example_soil_features_def)
  have e8: "(predict_crop (both_env (Some (tensor_model [[]])) (Some identity_scaler))
        example_soil_features =
      [(''error'', JStr ''attempt to get argmax of an empty sequence'')]
    \<and> predict_soil (both_env (Some (tensor_model [[]])) (Some identity_scaler))
        example_soil_features =
      [(''error'', JStr ''attempt to get argmax of an empty sequence'')])"
    using predict_helpers_total [of "both_env (Some (tensor_model [[]])) (Some identity_scaler)" "example_soil_features"]
    unfolding Let_def
    by (simp add: both_env_def tensor_model_def identity_scaler_def example_np_array_def example_soil_features_def)
  have e9: "(predict_crop (both_env (Some (tensor_model [long_row])) (Some identity_scaler))
        example_soil_features =
      [(''error'', JStr ''list index out of range'')]
    \<and> predict_soil (both_env (Some (tensor_model [long_row])) (Some identity_scaler))
        example_soil_features =
      [(''error'', JStr ''list index out of range'')])"
    using predict_helpers_total [of "both_env (Some (tensor_model [long_row])) (Some identity_scaler)" "example_soil_features"]
    unfolding Let_def
    by (simp add: both_env_def tensor_model_def identity_scaler_def example_np_array_def example_soil_features_def np_argmax_def CROP_LABELS_def SOIL_CLASSES_def long_row_def numeral_eq_Suc)
  have e10: "(predict_crop (both_env (Some (tensor_model [[Finite 0.1, Finite 0.2, Finite 0.7]])) (Some identity_scaler))
        example_soil_features =
      [(''predicted_crop'', JStr ''blackgram''), (''confidence'', JFloat (Finite 0.7)),
        (''class_index'', JInt 2)]
    \<and> predict_soil (both_env (Some (tensor_model [[Finite 0.1, Finite 0.2, Finite 0.7]])) (Some identity_scaler))
        example_soil_features =
      [(''predicted_fertility'', JStr ''High''), (''confidence'', JFloat (Finite 0.7)),
        (''class_index'', JInt 2)])"
    using predict_helpers_total [of "both_env (Some (tensor_model [[Finite 0.1, Finite 0.2, Finite 0.7]])) (Some identity_scaler)" "example_soil_features"]
    unfolding Let_def
    by (simp add: both_env_def tensor_model_def identity_scaler_def example_np_array_def example_soil_features_def np_argmax_def CROP_LABELS_def SOIL_CLASSES_def)
  from e1 e2 e3 e4 e5 e6 e7 e8 e9 e10 show ?thesis by blast
qed

section \<open>Claims about the crop endpoint\<close>

lemma crop_missing_message:
  "''Missing required fields: '' @ py_repr_list crop_required_fields =
   ''Missing required fields: ['N', 'P', 'K', 'temperature', 'humidity', 'ph', 'rainfall']''"
  by (simp add: py_repr_list_def crop_required_fields_def py_repr_str_def)

lemma crop_missing_response:
  assumes "\<not> list_all (\<lambda>f. py_in f data) crop_required_fields"
  shows "predict_crop_endpoint env data =
     (JObj [(''error'', JStr
        ''Missing required fields: ['N', 'P', 'K', 'temperature', 'humidity', 'ph', 'rainfall']'')],
      400)"
  using assms unfolding predict_crop_endpoint_def Let_def crop_missing_message by simp

lemma map_of_py_setitem: "map_of (py_setitem d k v) = (map_of d)(k \<mapsto> v)"
  by (induction d) (auto simp: fun_eq_iff)

text \<open>
  C2, as stated, fails: for a payload that lacks only \<^verbatim>\<open>N\<close> the endpoint answers
  400, but the message also names \<^verbatim>\<open>P\<close>, which is present, so it does not name
  exactly the absent fields.
\<close>

theorem crop_missing_names_present_field:
  "\<not> py_in ''N'' crop_payload_without_N
   \<and> py_in ''P'' crop_payload_without_N
   \<and> predict_crop_endpoint example_env crop_payload_without_N =
       (JObj [(''error'', JStr
          ''Missing required fields: ['N', 'P', 'K', 'temperature', 'humidity', 'ph', 'rainfall']'')],
        400)
   \<and> message_names
       ''Missing required fields: ['N', 'P', 'K', 'temperature', 'humidity', 'ph', 'rainfall']''
       ''P''
   \<and> \<not> names_exactly_absent
       ''Missing required fields: ['N', 'P', 'K', 'temperature', 'humidity', 'ph', 'rainfall']''
       crop_payload_without_N"
proof -
  have n: "\<not> py_in ''N'' crop_payload_without_N"
    by (simp add: py_in_def crop_payload_without_N_def)
  have p: "py_in ''P'' crop_payload_without_N"
    by (simp add: py_in_def crop_payload_without_N_def)
  have r: "predict_crop_endpoint example_env crop_payload_without_N =
       (JObj [(''error'', JStr
          ''Missing required fields: ['N', 'P', 'K', 'temperature', 'humidity', 'ph', 'rainfall']'')],
        400)"
    by (rule crop_missing_response) (simp add: crop_required_fields_def n)
  have m: "message_names
       ''Missing required fields: ['N', 'P', 'K', 'temperature', 'humidity', 'ph', 'rainfall']''
       ''P''"
    unfolding message_names_def py_repr_str_def by code_simp
  have x: "\<not> names_exactly_absent
       ''Missing required fields: ['N', 'P', 'K', 'temperature', 'humidity', 'ph', 'rainfall']''
       crop_payload_without_N"
    using m p by (simp add: names_exactly_absent_def crop_required_fields_def)
  from n p r m x show ?thesis by blast
qed

text \<open>
  C2, amended. For every crop request in which at least one of the seven
  required fields is absent, the endpoint returns HTTP 400 with an error object
  whose message is one fixed text that names all seven required fields, the
  present ones as well as the absent ones.
\<close>

theorem crop_missing_lists_all_required:
  assumes "\<exists>f \<in> set crop_required_fields. \<not> py_in f data"
  shows "predict_crop_endpoint env data =
     (JObj [(''error'', JStr
        ''Missing required fields: ['N', 'P', 'K', 'temperature', 'humidity', 'ph', 'rainfall']'')],
      400)
   \<and> list_all (message_names
        ''Missing required fields: ['N', 'P', 'K', 'temperature', 'humidity', 'ph', 'rainfall']'')
        crop_required_fields"
proof
  from assms have "\<not> list_all (\<lambda>f. py_in f data) crop_required_fields"
    by (simp add: list_all_iff)
  then show "predict_crop_endpoint env data =
     (JObj [(''error'', JStr
        ''Missing required fields: ['N', 'P', 'K', 'temperature', 'humidity', 'ph', 'rainfall']'')],
      400)"
    by (rule crop_missing_response)
  show "list_all (message_names
        ''Missing required fields: ['N', 'P', 'K', 'temperature', 'humidity', 'ph', 'rainfall']'')
        crop_required_fields"
    unfolding crop_required_fields_def message_names_def py_repr_str_def by code_simp
qed

theorem crop_missing_lists_all_required_witness:
  "(\<exists>f \<in> set crop_required_fields. \<not> py_in f crop_payload_without_N)
   \<and> predict_crop_endpoint example_env crop_payload_without_N =
     (JObj [(''error'', JStr
        ''Missing required fields: ['N', 'P', 'K', 'temperature', 'humidity', 'ph', 'rainfall']'')],
      400)
   \<and> list_all (message_names
        ''Missing required fields: ['N', 'P', 'K', 'temperature', 'humidity', 'ph', 'rainfall']'')
        crop_required_fields"
proof -
  have h: "\<exists>f \<in> set crop_required_fields. \<not> py_in f crop_payload_without_N"
    by (simp add: crop_required_fields_def py_in_def crop_payload_without_N_def)
  from h crop_missing_lists_all_required [OF h, of example_env] show ?thesis by blast
qed

lemma py_getitem_Some: "map_of d k = Some v \<Longrightarrow> py_getitem d k = Inr v"
  by (simp add: py_getitem_def)

text \<open>
  C4. For every crop payload in which all seven required fields are present,
  the list handed to \<^verbatim>\<open>predict_crop\<close> is the seven supplied values in the order
  N, P, K, temperature, humidity, ph, rainfall, and the response is built from
  that call.
\<close>

theorem crop_features_in_training_order:
  assumes "map_of data ''N'' = Some n" and "map_of data ''P'' = Some p"
    and "map_of data ''K'' = Some k" and "map_of data ''temperature'' = Some t"
    and "map_of data ''humidity'' = Some h" and "map_of data ''ph'' = Some ph"
    and "map_of data ''rainfall'' = Some r"
  shows "predict_crop_endpoint env data =
     (if py_in ''error'' (predict_crop env [n, p, k, t, h, ph, r])
      then (JObj (predict_crop env [n, p, k, t, h, ph, r]), 500)
      else (JObj [(''success'', JBool True),
                  (''prediction'', JObj (predict_crop env [n, p, k, t, h, ph, r])),
                  (''input_data'', JObj data)], 200))"
proof -
  have present: "list_all (\<lambda>field. py_in field data) crop_required_fields"
    using assms by (simp add: crop_required_fields_def py_in_def)
  have feats: "py_getitems data
      [''N'', ''P'', ''K'', ''temperature'', ''humidity'', ''ph'', ''rainfall'']
      = Inr [n, p, k, t, h, ph, r]"
    using assms by (simp add: py_getitem_Some)
  show ?thesis
    unfolding predict_crop_endpoint_def Let_def using present
    by (simp add: feats del: py_getitems.simps)
qed

theorem crop_features_in_training_order_witness:
  "map_of crop_payload ''N'' = Some (JInt 90) \<and> map_of crop_payload ''P'' = Some (JInt 42)
   \<and> map_of crop_payload ''K'' = Some (JInt 43)
   \<and> map_of crop_payload ''temperature'' = Some (JFloat (Finite 20.9))
   \<and> map_of crop_payload ''humidity'' = Some (JFloat (Finite 82.0))
   \<and> map_of crop_payload ''ph'' = Some (JFloat (Finite 6.5))
   \<and> map_of crop_payload ''rainfall'' = Some (JFloat (Finite 202.9))
   \<and> predict_crop_endpoint example_env crop_payload =
       (JObj [(''success'', JBool True),
              (''prediction'', JObj [(''predicted_crop'', JStr ''rice''),
                                     (''confidence'', JFloat (Finite 0.9)),
                                     (''class_index'', JInt 20)]),
              (''input_data'', JObj crop_payload)], 200)"
proof -
  have 1: "map_of crop_payload ''N'' = Some (JInt 90)" by (simp add: crop_payload_def)
  have 2: "map_of crop_payload ''P'' = Some (JInt 42)" by (simp add: crop_payload_def)
  have 3: "map_of crop_payload ''K'' = Some (JInt 43)" by (simp add: crop_payload_def)
  have 4: "map_of crop_payload ''temperature'' = Some (JFloat (Finite 20.9))"
    by (simp add: crop_payload_def)
  have 5: "map_of crop_payload ''humidity'' = Some (JFloat (Finite 82.0))"
    by (simp add: crop_payload_def)
  have 6: "map_of crop_payload ''ph'' = Some (JFloat (Finite 6.5))" by (simp add: crop_payload_def)
  have 7: "map_of crop_payload ''rainfall'' = Some (JFloat (Finite 202.9))"
    by (simp add: crop_payload_def)
  have res: "predict_crop example_env
               [JInt 90, JInt 42, JInt 43, JFloat (Finite 20.9), JFloat (Finite 82.0), JFloat (Finite 6.5), JFloat (Finite 202.9)]
             = [(''predicted_crop'', JStr ''rice''), (''confidence'', JFloat (Finite 0.9)),
                (''class_index'', JInt 20)]"
    using example_predict_crop unfolding example_crop_features_def .
  have "predict_crop_endpoint example_env crop_payload =
       (JObj [(''success'', JBool True),
              (''prediction'', JObj [(''predicted_crop'', JStr ''rice''),
                                     (''confidence'', JFloat (Finite 0.9)),
                                     (''class_index'', JInt 20)]),
              (''input_data'', JObj crop_payload)], 200)"
    using crop_features_in_training_order [OF 1 2 3 4 5 6 7, of example_env]
    unfolding res by (simp add: py_in_def)
  with 1 2 3 4 5 6 7 show ?thesis by blast
qed

section \<open>Claims about the combined endpoint\<close>

text \<open>
  C5. For every combined request that has N, P, K, temperature, humidity and
  rainfall and exactly one of the keys \<^verbatim>\<open>ph\<close> and \<^verbatim>\<open>pH\<close>, validation succeeds
  (status 200), the echoed payload holds the supplied value under both keys and
  is otherwise unchanged, and the crop list's ph entry and the soil list's pH
  entry are both that value.
\<close>

theorem combined_reconciles_ph:
  assumes "map_of data ''N'' = Some n" and "map_of data ''P'' = Some p"
    and "map_of data ''K'' = Some k" and "map_of data ''temperature'' = Some t"
    and "map_of data ''humidity'' = Some h" and "map_of data ''rainfall'' = Some r"
    and one: "(map_of data ''ph'' = Some v \<and> map_of data ''pH'' = None)
              \<or> (map_of data ''pH'' = Some v \<and> map_of data ''ph'' = None)"
  shows "\<exists>data'.
     predict_combined_endpoint env data =
       (JObj [(''success'', JBool True),
              (''crop_prediction'', JObj (predict_crop env [n, p, k, t, h, v, r])),
              (''soil_prediction'', JObj (predict_soil env [n, p, k, v])),
              (''input_data'', JObj data')], 200)
     \<and> map_of data' ''ph'' = Some v \<and> map_of data' ''pH'' = Some v
     \<and> (\<forall>key. key \<noteq> ''ph'' \<and> key \<noteq> ''pH'' \<longrightarrow> map_of data' key = map_of data key)"
proof -
  obtain missing where rec: "reconcile_ph data = Inr (py_setitem data missing v)"
    and m: "missing = ''ph'' \<or> missing = ''pH''"
    and both: "map_of (py_setitem data missing v) ''ph'' = Some v"
              "map_of (py_setitem data missing v) ''pH'' = Some v"
    using one
    by (auto simp: reconcile_ph_def py_in_def py_getitem_Some map_of_py_setitem)
  let ?d = "py_setitem data missing v"
  have others: "map_of ?d ''N'' = Some n" "map_of ?d ''P'' = Some p" "map_of ?d ''K'' = Some k"
    "map_of ?d ''temperature'' = Some t" "map_of ?d ''humidity'' = Some h"
    "map_of ?d ''rainfall'' = Some r"
    using assms(1-6) m by (auto simp: map_of_py_setitem)
  have crop_ok: "list_all (\<lambda>field. py_in field ?d) crop_required_fields"
    using others both by (simp add: crop_required_fields_def py_in_def)
  have soil_ok: "list_all (\<lambda>field. py_in field ?d) soil_required_fields"
    using others both by (simp add: soil_required_fields_def py_in_def)
  have cf: "py_getitems ?d
      [''N'', ''P'', ''K'', ''temperature'', ''humidity'', ''ph'', ''rainfall'']
      = Inr [n, p, k, t, h, v, r]"
    using others both by (simp add: py_getitem_Some)
  have sf: "py_getitems ?d [''N'', ''P'', ''K'', ''pH''] = Inr [n, p, k, v]"
    using others both by (simp add: py_getitem_Some)
  have resp: "predict_combined_endpoint env data =
       (JObj [(''success'', JBool True),
              (''crop_prediction'', JObj (predict_crop env [n, p, k, t, h, v, r])),
              (''soil_prediction'', JObj (predict_soil env [n, p, k, v])),
              (''input_data'', JObj ?d)], 200)"
    unfolding predict_combined_endpoint_def Let_def
    using crop_ok soil_ok by (simp add: rec cf sf del: py_getitems.simps)
  have unchanged: "\<forall>key. key \<noteq> ''ph'' \<and> key \<noteq> ''pH'' \<longrightarrow> map_of ?d key = map_of data key"
    using m by (auto simp: map_of_py_setitem)
  from resp both unchanged show ?thesis by blast
qed

theorem combined_reconciles_ph_witness:
  "map_of combined_payload_ph_only ''N'' = Some (JInt 90)
   \<and> map_of combined_payload_ph_only ''P'' = Some (JInt 42)
   \<and> map_of combined_payload_ph_only ''K'' = Some (JInt 43)
   \<and> map_of combined_payload_ph_only ''temperature'' = Some (JFloat (Finite 20.9))
   \<and> map_of combined_payload_ph_only ''humidity'' = Some (JFloat (Finite 82.0))
   \<and> map_of combined_payload_ph_only ''rainfall'' = Some (JFloat (Finite 202.9))
   \<and> map_of combined_payload_ph_only ''ph'' = Some (JFloat (Finite 6.5))
   \<and> map_of combined_payload_ph_only ''pH'' = None
   \<and> (\<exists>data'.
     predict_combined_endpoint example_env combined_payload_ph_only =
       (JObj [(''success'', JBool True),
              (''crop_prediction'', JObj (predict_crop example_env
                 [JInt 90, JInt 42, JInt 43, JFloat (Finite 20.9), JFloat (Finite 82.0), JFloat (Finite 6.5), JFloat (Finite 202.9)])),
              (''soil_prediction'', JObj (predict_soil example_env
                 [JInt 90, JInt 42, JInt 43, JFloat (Finite 6.5)])),
              (''input_data'', JObj data')], 200)
     \<and> map_of data' ''ph'' = Some (JFloat (Finite 6.5)) \<and> map_of data' ''pH'' = Some (JFloat (Finite 6.5))
     \<and> (\<forall>key. key \<noteq> ''ph'' \<and> key \<noteq> ''pH'' \<longrightarrow>
            map_of data' key = map_of combined_payload_ph_only key))"
proof -
  have 1: "map_of combined_payload_ph_only ''N'' = Some (JInt 90)"
    by (simp add: combined_payload_ph_only_def crop_payload_def)
  have 2: "map_of combined_payload_ph_only ''P'' = Some (JInt 42)"
    by (simp add: combined_payload_ph_only_def crop_payload_def)
  have 3: "map_of combined_payload_ph_only ''K'' = Some (JInt 43)"
    by (simp add: combined_payload_ph_only_def crop_payload_def)
  have 4: "map_of combined_payload_ph_only ''temperature'' = Some (JFloat (Finite 20.9))"
    by (simp add: combined_payload_ph_only_def crop_payload_def)
  have 5: "map_of combined_payload_ph_only ''humidity'' = Some (JFloat (Finite 82.0))"
    by (simp add: combined_payload_ph_only_def crop_payload_def)
  have 6: "map_of combined_payload_ph_only ''rainfall'' = Some (JFloat (Finite 202.9))"
    by (simp add: combined_payload_ph_only_def crop_payload_def)
  have 7: "map_of combined_payload_ph_only ''ph'' = Some (JFloat (Finite 6.5))"
    by (simp add: combined_payload_ph_only_def crop_payload_def)
  have 8: "map_of combined_payload_ph_only ''pH'' = None"
    by (simp add: combined_payload_ph_only_def crop_payload_def)
  have one: "(map_of combined_payload_ph_only ''ph'' = Some (JFloat (Finite 6.5))
               \<and> map_of combined_payload_ph_only ''pH'' = None)
             \<or> (map_of combined_payload_ph_only ''pH'' = Some (JFloat (Finite 6.5))
               \<and> map_of combined_payload_ph_only ''ph'' = None)"
    using 7 8 by blast
  from 1 2 3 4 5 6 7 8 combined_reconciles_ph [OF 1 2 3 4 5 6 one, of example_env]
  show ?thesis by blast
qed

text \<open>
  C3 at a failing input: with no model loaded, the crop endpoint answers a
  complete payload with status 500 and the failure message, while the combined
  endpoint answers the same payload, and the sensor endpoint an empty payload,
  with status 200 and \<^verbatim>\<open>success: true\<close>, the failure message sitting
  inside each prediction.
\<close>

theorem combined_reports_success_on_inference_failure:
  "predict_crop_endpoint unloaded_env crop_payload =
     (JObj [(''error'', JStr (str_exc (none_has_no_attribute ''get_input_details'')))], 500)
   \<and> predict_combined_endpoint unloaded_env crop_payload =
     (JObj [(''success'', JBool True),
            (''crop_prediction'',
               JObj [(''error'', JStr (str_exc (none_has_no_attribute ''get_input_details'')))]),
            (''soil_prediction'',
               JObj [(''error'', JStr (str_exc (none_has_no_attribute ''get_input_details'')))]),
            (''input_data'', JObj (crop_payload @ [(''pH'', JFloat (Finite 6.5))]))], 200)
   \<and> process_sensor_data unloaded_env [] =
     (JObj [(''success'', JBool True),
            (''sensor_data'', JObj []),
            (''recommendations'',
               JObj [(''crop'',
                        JObj [(''error'',
                           JStr (str_exc (none_has_no_attribute ''get_input_details'')))]),
                     (''soil_fertility'',
                        JObj [(''error'',
                           JStr (str_exc (none_has_no_attribute ''get_input_details'')))])]),
            (''processed_values'', JObj (sensor_prediction_data [] (JFloat (Finite 6.5))))], 200)"
proof (intro conjI)
  have pc: "\<And>x. predict_crop unloaded_env x =
              [(''error'', JStr (str_exc (none_has_no_attribute ''get_input_details'')))]"
    by (simp add: predict_crop_def model_output_def unloaded_env_def catch_error_def)
  have ps: "\<And>x. predict_soil unloaded_env x =
              [(''error'', JStr (str_exc (none_has_no_attribute ''get_input_details'')))]"
    by (simp add: predict_soil_def model_output_def unloaded_env_def catch_error_def)
  show "predict_crop_endpoint unloaded_env crop_payload =
     (JObj [(''error'', JStr (str_exc (none_has_no_attribute ''get_input_details'')))], 500)"
    by (simp add: predict_crop_endpoint_def crop_required_fields_def crop_payload_def
          py_in_def py_getitem_def pc)
  show "predict_combined_endpoint unloaded_env crop_payload =
     (JObj [(''success'', JBool True),
            (''crop_prediction'',
               JObj [(''error'', JStr (str_exc (none_has_no_attribute ''get_input_details'')))]),
            (''soil_prediction'',
               JObj [(''error'', JStr (str_exc (none_has_no_attribute ''get_input_details'')))]),
            (''input_data'', JObj (crop_payload @ [(''pH'', JFloat (Finite 6.5))]))], 200)"
    by (simp add: predict_combined_endpoint_def reconcile_ph_def crop_required_fields_def
          soil_required_fields_def crop_payload_def py_in_def py_getitem_def pc ps)
  show "process_sensor_data unloaded_env [] =
     (JObj [(''success'', JBool True),
            (''sensor_data'', JObj []),
            (''recommendations'',
               JObj [(''crop'',
                        JObj [(''error'',
                           JStr (str_exc (none_has_no_attribute ''get_input_details'')))]),
                     (''soil_fertility'',
                        JObj [(''error'',
                           JStr (str_exc (none_has_no_attribute ''get_input_details'')))])]),
            (''processed_values'', JObj (sensor_prediction_data [] (JFloat (Finite 6.5))))], 200)"
    by (simp add: process_sensor_data_def sensor_ph_value_def py_get_def sensor_response_def
          sensor_prediction_data_def py_getitem_def pc ps)
qed

section \<open>Claims about the sensor endpoint\<close>

lemma sensor_response_eq:
  "sensor_response env data ph_value =
     (JObj [(''success'', JBool True),
            (''sensor_data'', JObj data),
            (''recommendations'',
               JObj [(''crop'', JObj (predict_crop env
                        [py_get data ''nitrogen'' (JInt 0), py_get data ''phosphorus'' (JInt 0),
                         py_get data ''potassium'' (JInt 0), py_get data ''temperature'' (JFloat (Finite 25.0)),
                         py_get data ''humidity'' (JFloat (Finite 60.0)), ph_value,
                         py_get data ''rainfall'' (JFloat (Finite 100.0))])),
                     (''soil_fertility'', JObj (predict_soil env
                        [py_get data ''nitrogen'' (JInt 0), py_get data ''phosphorus'' (JInt 0),
                         py_get data ''potassium'' (JInt 0), ph_value]))]),
            (''processed_values'',
               JObj [(''N'', py_get data ''nitrogen'' (JInt 0)), (''P'', py_get data ''phosphorus'' (JInt 0)),
                     (''K'', py_get data ''potassium'' (JInt 0)),
                     (''pH'', ph_value), (''ph'', ph_value),
                     (''temperature'', py_get data ''temperature'' (JFloat (Finite 25.0))),
                     (''humidity'', py_get data ''humidity'' (JFloat (Finite 60.0))),
                     (''rainfall'', py_get data ''rainfall'' (JFloat (Finite 100.0)))])], 200)"
  by (simp add: sensor_response_def sensor_prediction_data_def py_getitem_def Let_def)

lemma example_round: "float_round example_env r = r"
  by (simp add: example_env_def)

text \<open>
  C1 at the failing input: a payload with \<^verbatim>\<open>soilPH: 65\<close> is not rescaled, the
  value used for both predictions and reported in \<^verbatim>\<open>processed_values\<close> is the
  integer 65, not 6.5.
\<close>

theorem sensor_ph_65_is_not_rescaled:
  "sensor_ph_value (float_round example_env) [(''soilPH'', JInt 65)] = Inr (JInt 65)
   \<and> process_sensor_data example_env [(''soilPH'', JInt 65)] =
     (JObj [(''success'', JBool True),
            (''sensor_data'', JObj [(''soilPH'', JInt 65)]),
            (''recommendations'',
               JObj [(''crop'', JObj (predict_crop example_env
                        [JInt 0, JInt 0,
                         JInt 0, JFloat (Finite 25.0),
                         JFloat (Finite 60.0), JInt 65,
                         JFloat (Finite 100.0)])),
                     (''soil_fertility'', JObj (predict_soil example_env
                        [JInt 0, JInt 0,
                         JInt 0, JInt 65]))]),
            (''processed_values'',
               JObj [(''N'', JInt 0), (''P'', JInt 0),
                     (''K'', JInt 0),
                     (''pH'', JInt 65), (''ph'', JInt 65),
                     (''temperature'', JFloat (Finite 25.0)),
                     (''humidity'', JFloat (Finite 60.0)),
                     (''rainfall'', JFloat (Finite 100.0))])], 200)"
proof
  show v: "sensor_ph_value (float_round example_env) [(''soilPH'', JInt 65)] = Inr (JInt 65)"
    by (simp add: sensor_ph_value_def py_get_def)
  show "process_sensor_data example_env [(''soilPH'', JInt 65)] =
     (JObj [(''success'', JBool True),
            (''sensor_data'', JObj [(''soilPH'', JInt 65)]),
            (''recommendations'',
               JObj [(''crop'', JObj (predict_crop example_env
                        [JInt 0, JInt 0,
                         JInt 0, JFloat (Finite 25.0),
                         JFloat (Finite 60.0), JInt 65,
                         JFloat (Finite 100.0)])),
                     (''soil_fertility'', JObj (predict_soil example_env
                        [JInt 0, JInt 0,
                         JInt 0, JInt 65]))]),
            (''processed_values'',
               JObj [(''N'', JInt 0), (''P'', JInt 0),
                     (''K'', JInt 0),
                     (''pH'', JInt 65), (''ph'', JInt 65),
                     (''temperature'', JFloat (Finite 25.0)),
                     (''humidity'', JFloat (Finite 60.0)),
                     (''rainfall'', JFloat (Finite 100.0))])], 200)"
    by (simp add: process_sensor_data_def v sensor_response_eq py_get_def)
qed

text \<open>
  C6, as stated, fails twice. The magnitude of \<open>-200\<close> exceeds 100, yet the
  value used is \<open>-200\<close> itself and not \<open>-20\<close>. The magnitude of \<open>2 ^ 1024\<close>
  exceeds 100, yet no value is used at all: the division raises OverflowError
  and the endpoint answers 500.
\<close>

theorem sensor_ph_negative_not_rescaled:
  "\<bar>- 200 :: int\<bar> > 100
   \<and> sensor_ph_value (float_round example_env) [(''soilPH'', JInt (- 200))]
       = Inr (JInt (- 200))
   \<and> sensor_ph_value (float_round example_env) [(''soilPH'', JInt (- 200))]
       \<noteq> Inr (JFloat (Finite (real_of_int (- 200) / 10)))
   \<and> process_sensor_data example_env [(''soilPH'', JInt (- 200))] =
     (JObj [(''success'', JBool True),
            (''sensor_data'', JObj [(''soilPH'', JInt (- 200))]),
            (''recommendations'',
               JObj [(''crop'', JObj (predict_crop example_env
                        [JInt 0, JInt 0,
                         JInt 0, JFloat (Finite 25.0),
                         JFloat (Finite 60.0), JInt (- 200),
                         JFloat (Finite 100.0)])),
                     (''soil_fertility'', JObj (predict_soil example_env
                        [JInt 0, JInt 0,
                         JInt 0, JInt (- 200)]))]),
            (''processed_values'',
               JObj [(''N'', JInt 0), (''P'', JInt 0),
                     (''K'', JInt 0),
                     (''pH'', JInt (- 200)), (''ph'', JInt (- 200)),
                     (''temperature'', JFloat (Finite 25.0)),
                     (''humidity'', JFloat (Finite 60.0)),
                     (''rainfall'', JFloat (Finite 100.0))])], 200)
   \<and> \<bar>2 ^ 1024 :: int\<bar> > 100
   \<and> process_sensor_data example_env [(''soilPH'', JInt (2 ^ 1024))] =
       (JObj [(''error'', JStr ''int too large to convert to float'')], 500)"
proof -
  have v: "sensor_ph_value (float_round example_env) [(''soilPH'', JInt (- 200))]
             = Inr (JInt (- 200))"
    by (simp add: sensor_ph_value_def py_get_def)
  have r: "process_sensor_data example_env [(''soilPH'', JInt (- 200))] =
     (JObj [(''success'', JBool True),
            (''sensor_data'', JObj [(''soilPH'', JInt (- 200))]),
            (''recommendations'',
               JObj [(''crop'', JObj (predict_crop example_env
                        [JInt 0, JInt 0,
                         JInt 0, JFloat (Finite 25.0),
                         JFloat (Finite 60.0), JInt (- 200),
                         JFloat (Finite 100.0)])),
                     (''soil_fertility'', JObj (predict_soil example_env
                        [JInt 0, JInt 0,
                         JInt 0, JInt (- 200)]))]),
            (''processed_values'',
               JObj [(''N'', JInt 0), (''P'', JInt 0),
                     (''K'', JInt 0),
                     (''pH'', JInt (- 200)), (''ph'', JInt (- 200)),
                     (''temperature'', JFloat (Finite 25.0)),
                     (''humidity'', JFloat (Finite 60.0)),
                     (''rainfall'', JFloat (Finite 100.0))])], 200)"
    by (simp add: process_sensor_data_def v sensor_response_eq py_get_def)
  have o: "process_sensor_data example_env [(''soilPH'', JInt (2 ^ 1024))] =
       (JObj [(''error'', JStr ''int too large to convert to float'')], 500)"
    by (simp add: process_sensor_data_def sensor_ph_value_def py_get_def float_of_int_def
          error_response_def)
  have m: "\<bar>- 200 :: int\<bar> > 100" "\<bar>2 ^ 1024 :: int\<bar> > 100" by simp_all
  from v r o m show ?thesis by simp
qed

text \<open>
  C6, amended. For every sensor payload whose \<^verbatim>\<open>soilPH\<close> is a number: if the
  value itself (signed, not its magnitude) exceeds 100, the value used for both
  predictions and reported in \<^verbatim>\<open>processed_values\<close> is that value divided by 10
  in float arithmetic (an int is converted to a float first, and the quotient
  is rounded), except that an int from \<open>2 ^ 1024 - 2 ^ 970\<close> on cannot be
  converted and the endpoint answers 500 with the OverflowError message;
  otherwise the supplied value is used as it is. Infinity divided by 10 is
  infinity and NaN is never above 100, so a non-finite float is used as it is.
  An absent \<^verbatim>\<open>soilPH\<close> is 6.5.
\<close>

theorem sensor_ph_signed_threshold:
  "let used = (\<lambda>ph_value. process_sensor_data env data =
     (JObj [(''success'', JBool True),
            (''sensor_data'', JObj data),
            (''recommendations'',
               JObj [(''crop'', JObj (predict_crop env
                        [py_get data ''nitrogen'' (JInt 0), py_get data ''phosphorus'' (JInt 0),
                         py_get data ''potassium'' (JInt 0), py_get data ''temperature'' (JFloat (Finite 25.0)),
                         py_get data ''humidity'' (JFloat (Finite 60.0)), ph_value,
                         py_get data ''rainfall'' (JFloat (Finite 100.0))])),
                     (''soil_fertility'', JObj (predict_soil env
                        [py_get data ''nitrogen'' (JInt 0), py_get data ''phosphorus'' (JInt 0),
                         py_get data ''potassium'' (JInt 0), ph_value]))]),
            (''processed_values'',
               JObj [(''N'', py_get data ''nitrogen'' (JInt 0)), (''P'', py_get data ''phosphorus'' (JInt 0)),
                     (''K'', py_get data ''potassium'' (JInt 0)),
                     (''pH'', ph_value), (''ph'', ph_value),
                     (''temperature'', py_get data ''temperature'' (JFloat (Finite 25.0))),
                     (''humidity'', py_get data ''humidity'' (JFloat (Finite 60.0))),
                     (''rainfall'', py_get data ''rainfall'' (JFloat (Finite 100.0)))])], 200))
   in (map_of data ''soilPH'' = None \<longrightarrow> used (JFloat (Finite 6.5)))
    \<and> (map_of data ''soilPH'' = Some (JInt i) \<and> i \<le> 100 \<longrightarrow> used (JInt i))
    \<and> (map_of data ''soilPH'' = Some (JInt i) \<and> 100 < i \<and> i < 2 ^ 1024 - 2 ^ 970 \<longrightarrow>
          used (JFloat (Finite (float_round env (float_round env (real_of_int i) / 10)))))
    \<and> (map_of data ''soilPH'' = Some (JInt i) \<and> 2 ^ 1024 - 2 ^ 970 \<le> i \<longrightarrow>
          process_sensor_data env data =
            (JObj [(''error'', JStr ''int too large to convert to float'')], 500))
    \<and> (map_of data ''soilPH'' = Some (JFloat (Finite x)) \<and> x \<le> 100 \<longrightarrow>
          used (JFloat (Finite x)))
    \<and> (map_of data ''soilPH'' = Some (JFloat (Finite x)) \<and> 100 < x \<longrightarrow>
          used (JFloat (Finite (float_round env (x / 10)))))
    \<and> (map_of data ''soilPH'' = Some (JFloat f) \<and> (f = PosInf \<or> f = NegInf \<or> f = NaN) \<longrightarrow>
          used (JFloat f))"
proof -
  have none: "map_of data ''soilPH'' = None \<Longrightarrow>
      sensor_ph_value (float_round env) data = Inr (JFloat (Finite 6.5))"
    by (simp add: sensor_ph_value_def py_get_def)
  have small: "map_of data ''soilPH'' = Some (JInt i) \<Longrightarrow> i \<le> 100 \<Longrightarrow>
      sensor_ph_value (float_round env) data = Inr (JInt i)"
    by (simp add: sensor_ph_value_def py_get_def)
  have big: "map_of data ''soilPH'' = Some (JInt i) \<Longrightarrow> 100 < i \<Longrightarrow> i < 2 ^ 1024 - 2 ^ 970 \<Longrightarrow>
      sensor_ph_value (float_round env) data =
        Inr (JFloat (Finite (float_round env (float_round env (real_of_int i) / 10))))"
    by (simp add: sensor_ph_value_def py_get_def float_of_int_def)
  have huge: "map_of data ''soilPH'' = Some (JInt i) \<Longrightarrow> 2 ^ 1024 - 2 ^ 970 \<le> i \<Longrightarrow>
      sensor_ph_value (float_round env) data =
        Inl (OverflowError ''int too large to convert to float'')"
  proof -
    assume a: "map_of data ''soilPH'' = Some (JInt i)" and b: "2 ^ 1024 - 2 ^ 970 \<le> i"
    have "(100::int) < 2 ^ 1024 - 2 ^ 970" by simp
    with b have "100 < i" "2 ^ 1024 - 2 ^ 970 \<le> \<bar>i\<bar>" by linarith+
    with a show ?thesis by (simp add: sensor_ph_value_def py_get_def float_of_int_def)
  qed
  have fsmall: "map_of data ''soilPH'' = Some (JFloat (Finite x)) \<Longrightarrow> x \<le> 100 \<Longrightarrow>
      sensor_ph_value (float_round env) data = Inr (JFloat (Finite x))"
    by (simp add: sensor_ph_value_def py_get_def)
  have fbig: "map_of data ''soilPH'' = Some (JFloat (Finite x)) \<Longrightarrow> 100 < x \<Longrightarrow>
      sensor_ph_value (float_round env) data =
        Inr (JFloat (Finite (float_round env (x / 10))))"
    by (simp add: sensor_ph_value_def py_get_def)
  have special: "map_of data ''soilPH'' = Some (JFloat f) \<Longrightarrow>
      f = PosInf \<or> f = NegInf \<or> f = NaN \<Longrightarrow>
      sensor_ph_value (float_round env) data = Inr (JFloat f)"
    by (auto simp: sensor_ph_value_def py_get_def)
  show ?thesis
    unfolding Let_def
    using none small big huge fsmall fbig special
    by (simp add: process_sensor_data_def sensor_response_eq error_response_def)
qed

theorem sensor_ph_signed_threshold_witness:
  "let used = (\<lambda>data ph_value. process_sensor_data example_env data =
     (JObj [(''success'', JBool True),
            (''sensor_data'', JObj data),
            (''recommendations'',
               JObj [(''crop'', JObj (predict_crop example_env
                        [py_get data ''nitrogen'' (JInt 0), py_get data ''phosphorus'' (JInt 0),
                         py_get data ''potassium'' (JInt 0), py_get data ''temperature'' (JFloat (Finite 25.0)),
                         py_get data ''humidity'' (JFloat (Finite 60.0)), ph_value,
                         py_get data ''rainfall'' (JFloat (Finite 100.0))])),
                     (''soil_fertility'', JObj (predict_soil example_env
                        [py_get data ''nitrogen'' (JInt 0), py_get data ''phosphorus'' (JInt 0),
                         py_get data ''potassium'' (JInt 0), ph_value]))]),
            (''processed_values'',
               JObj [(''N'', py_get data ''nitrogen'' (JInt 0)), (''P'', py_get data ''phosphorus'' (JInt 0)),
                     (''K'', py_get data ''potassium'' (JInt 0)),
                     (''pH'', ph_value), (''ph'', ph_value),
                     (''temperature'', py_get data ''temperature'' (JFloat (Finite 25.0))),
                     (''humidity'', py_get data ''humidity'' (JFloat (Finite 60.0))),
                     (''rainfall'', py_get data ''rainfall'' (JFloat (Finite 100.0)))])], 200))
   in (map_of ([] :: dict) ''soilPH'' = None \<and> used [] (JFloat (Finite 6.5)))
    \<and> (map_of [(''soilPH'', JInt 65)] ''soilPH'' = Some (JInt 65) \<and> (65 :: int) \<le> 100
        \<and> used [(''soilPH'', JInt 65)] (JInt 65))
    \<and> (map_of [(''soilPH'', JInt 650)] ''soilPH'' = Some (JInt 650)
        \<and> (100 :: int) < 650 \<and> (650 :: int) < 2 ^ 1024 - 2 ^ 970
        \<and> used [(''soilPH'', JInt 650)] (JFloat (Finite 65)))
    \<and> (map_of [(''soilPH'', JInt (2 ^ 1024))] ''soilPH'' = Some (JInt (2 ^ 1024))
        \<and> (2 ^ 1024 - 2 ^ 970 :: int) \<le> 2 ^ 1024
        \<and> process_sensor_data example_env [(''soilPH'', JInt (2 ^ 1024))] =
            (JObj [(''error'', JStr ''int too large to convert to float'')], 500))
    \<and> (map_of [(''soilPH'', JFloat (Finite 6.5))] ''soilPH'' = Some (JFloat (Finite 6.5))
        \<and> (6.5 :: real) \<le> 100
        \<and> used [(''soilPH'', JFloat (Finite 6.5))] (JFloat (Finite 6.5)))
    \<and> (map_of [(''soilPH'', JFloat (Finite 650))] ''soilPH'' = Some (JFloat (Finite 650))
        \<and> (100 :: real) < 650
        \<and> used [(''soilPH'', JFloat (Finite 650))] (JFloat (Finite 65)))
    \<and> (map_of [(''soilPH'', JFloat PosInf)] ''soilPH'' = Some (JFloat PosInf)
        \<and> used [(''soilPH'', JFloat PosInf)] (JFloat PosInf))"
  unfolding Let_def
  using sensor_ph_signed_threshold [where data = "[]" and env = example_env]
    sensor_ph_signed_threshold
      [where data = "[(''soilPH'', JInt 65)]" and i = 65 and env = example_env]
    sensor_ph_signed_threshold
      [where data = "[(''soilPH'', JInt 650)]" and i = 650 and env = example_env]
    sensor_ph_signed_threshold
      [where data = "[(''soilPH'', JInt (2 ^ 1024))]" and i = "2 ^ 1024" and env = example_env]
    sensor_ph_signed_threshold
      [where data = "[(''soilPH'', JFloat (Finite 6.5))]" and x = "6.5" and env = example_env]
    sensor_ph_signed_threshold
      [where data = "[(''soilPH'', JFloat (Finite 650))]" and x = 650 and env = example_env]
    sensor_ph_signed_threshold
      [where data = "[(''soilPH'', JFloat PosInf)]" and f = PosInf and env = example_env]
  unfolding Let_def
  by (simp add: example_round)

text \<open>
  C7. For every sensor payload whose pH value is accepted, the two feature
  lists and \<^verbatim>\<open>processed_values\<close> hold, for each of nitrogen, phosphorus,
  potassium, temperature, humidity and rainfall, the supplied value when the
  key is present and otherwise the default: 0 for the three nutrients, 25.0,
  60.0 and 100.0 for temperature, humidity and rainfall.
\<close>

theorem sensor_defaults_applied:
  assumes "sensor_ph_value (float_round env) data = Inr ph_value"
    and "N = (case map_of data ''nitrogen'' of None \<Rightarrow> JInt 0 | Some v \<Rightarrow> v)"
    and "P = (case map_of data ''phosphorus'' of None \<Rightarrow> JInt 0 | Some v \<Rightarrow> v)"
    and "K = (case map_of data ''potassium'' of None \<Rightarrow> JInt 0 | Some v \<Rightarrow> v)"
    and "T = (case map_of data ''temperature'' of
                None \<Rightarrow> JFloat (Finite 25.0) | Some v \<Rightarrow> v)"
    and "H = (case map_of data ''humidity'' of
                None \<Rightarrow> JFloat (Finite 60.0) | Some v \<Rightarrow> v)"
    and "R = (case map_of data ''rainfall'' of
                None \<Rightarrow> JFloat (Finite 100.0) | Some v \<Rightarrow> v)"
  shows "process_sensor_data env data =
     (JObj [(''success'', JBool True),
            (''sensor_data'', JObj data),
            (''recommendations'',
               JObj [(''crop'', JObj (predict_crop env [N, P, K, T, H, ph_value, R])),
                     (''soil_fertility'', JObj (predict_soil env [N, P, K, ph_value]))]),
            (''processed_values'',
               JObj [(''N'', N), (''P'', P), (''K'', K), (''pH'', ph_value), (''ph'', ph_value),
                     (''temperature'', T), (''humidity'', H), (''rainfall'', R)])], 200)"
  unfolding assms(2-7)
  by (simp add: process_sensor_data_def assms(1) sensor_response_eq py_get_def
        split: option.splits)

theorem sensor_defaults_applied_witness:
  "sensor_ph_value (float_round example_env) sensor_payload = Inr (JFloat (Finite 65))
   \<and> process_sensor_data example_env sensor_payload =
     (JObj [(''success'', JBool True),
            (''sensor_data'', JObj sensor_payload),
            (''recommendations'',
               JObj [(''crop'', JObj (predict_crop example_env
                        [JInt 90, JInt 0, JInt 0, JFloat (Finite 25.0), JFloat (Finite 60.0),
                         JFloat (Finite 65), JFloat (Finite 100.0)])),
                     (''soil_fertility'', JObj (predict_soil example_env
                        [JInt 90, JInt 0, JInt 0, JFloat (Finite 65)]))]),
            (''processed_values'',
               JObj [(''N'', JInt 90), (''P'', JInt 0), (''K'', JInt 0),
                     (''pH'', JFloat (Finite 65)), (''ph'', JFloat (Finite 65)),
                     (''temperature'', JFloat (Finite 25.0)),
                     (''humidity'', JFloat (Finite 60.0)),
                     (''rainfall'', JFloat (Finite 100.0))])], 200)"
proof -
  have v: "sensor_ph_value (float_round example_env) sensor_payload
             = Inr (JFloat (Finite 65))"
    by (simp add: sensor_ph_value_def py_get_def sensor_payload_def example_round)
  have n: "JInt 90 = (case map_of sensor_payload ''nitrogen'' of None \<Rightarrow> JInt 0 | Some v \<Rightarrow> v)"
    and p: "JInt 0 = (case map_of sensor_payload ''phosphorus'' of None \<Rightarrow> JInt 0 | Some v \<Rightarrow> v)"
    and k: "JInt 0 = (case map_of sensor_payload ''potassium'' of None \<Rightarrow> JInt 0 | Some v \<Rightarrow> v)"
    and t: "JFloat (Finite 25.0) =
              (case map_of sensor_payload ''temperature'' of
                 None \<Rightarrow> JFloat (Finite 25.0) | Some v \<Rightarrow> v)"
    and h: "JFloat (Finite 60.0) =
              (case map_of sensor_payload ''humidity'' of
                 None \<Rightarrow> JFloat (Finite 60.0) | Some v \<Rightarrow> v)"
    and r: "JFloat (Finite 100.0) =
              (case map_of sensor_payload ''rainfall'' of
                 None \<Rightarrow> JFloat (Finite 100.0) | Some v \<Rightarrow> v)"
    by (simp_all add: sensor_payload_def)
  from v sensor_defaults_applied [OF v n p k t h r] show ?thesis by blast
qed

end
